theory Spec2Isabelle
  imports Complex_Main "HOL-Library.Product_Lexorder"
begin

section \<open>Python floats\<close>

text \<open>
  Prices, \<^verbatim>\<open>pct\<close>, \<^verbatim>\<open>sl_pct\<close> and the metrics are Python floats, that is IEEE 754
  binary64 numbers. A finite float is modelled as the real number it denotes,
  and every arithmetic operation of the script as the exact result rounded to
  the nearest float, ties to the even significand. A decimal literal of the
  script, such as \<^verbatim>\<open>0.005\<close>, denotes the float nearest to it, \<open>round_double 0.005\<close>.
  NaN, the infinities, the sign of zero and overflow past the largest finite
  float are not modelled.
\<close>

text \<open>\<open>exponent x\<close> is the integer \<open>e\<close> with \<open>2^e \<le> x < 2^(e+1)\<close>, for \<open>x > 0\<close>.\<close>

function exp_up :: "real \<Rightarrow> int" where
  "exp_up x = (if 2 \<le> x then exp_up (x / 2) + 1 else 0)"
  by pat_completeness auto
termination
proof (relation "measure (\<lambda>x. nat \<lfloor>x\<rfloor>)")
  show "wf (measure (\<lambda>x::real. nat \<lfloor>x\<rfloor>))" by simp
next
  fix x :: real
  assume "2 \<le> x"
  then have "x / 2 \<le> x - 1" by simp
  then have "\<lfloor>x / 2\<rfloor> \<le> \<lfloor>x - 1\<rfloor>" by (rule floor_mono)
  moreover have "2 \<le> \<lfloor>x\<rfloor>" using \<open>2 \<le> x\<close> by (simp add: le_floor_iff)
  ultimately show "(x / 2, x) \<in> measure (\<lambda>x. nat \<lfloor>x\<rfloor>)" by simp
qed

function exp_down :: "real \<Rightarrow> int" where
  "exp_down x = (if 0 < x \<and> x < 1 then exp_down (x * 2) - 1 else 0)"
  by pat_completeness auto
termination
proof (relation "measure (\<lambda>x. nat \<lfloor>1 / x\<rfloor>)")
  show "wf (measure (\<lambda>x::real. nat \<lfloor>1 / x\<rfloor>))" by simp
next
  fix x :: real
  assume a: "0 < x \<and> x < 1"
  define y where "y = 1 / x"
  define k where "k = \<lfloor>y\<rfloor>"
  have "1 < y" using a by (simp add: y_def)
  then have k1: "1 \<le> k" unfolding k_def by (simp only: le_floor_iff of_int_1 less_imp_le)
  then have kr: "(1::real) \<le> of_int k" by simp
  have "y < of_int k + 1" unfolding k_def by linarith
  with kr have "y / 2 < of_int k" by linarith
  then have "\<lfloor>y / 2\<rfloor> < k" by (simp only: floor_less_iff)
  moreover have "1 / (x * 2) = y / 2" by (simp add: y_def)
  ultimately have "\<lfloor>1 / (x * 2)\<rfloor> < k" by (simp only:)
  with k1 have "nat \<lfloor>1 / (x * 2)\<rfloor> < nat k" by linarith
  then show "(x * 2, x) \<in> measure (\<lambda>x. nat \<lfloor>1 / x\<rfloor>)"
    unfolding k_def y_def by (simp only: in_measure)
qed

declare exp_up.simps [simp del]
declare exp_down.simps [simp del]

definition exponent :: "real \<Rightarrow> int" where
  "exponent x = (if 1 \<le> x then exp_up x else exp_down x)"

definition pow2 :: "int \<Rightarrow> real" where
  "pow2 e = (if 0 \<le> e then 2 ^ nat e else 1 / 2 ^ nat (- e))"

definition round_half_even :: "real \<Rightarrow> int" where
  "round_half_even y =
     (let f = \<lfloor>y\<rfloor>; d = y - of_int f
      in if d < 1 / 2 then f
         else if 1 / 2 < d then f + 1
         else if even f then f else f + 1)"

text \<open>
  The nearest float: a multiple of the unit in the last place of \<open>x\<close>, which is
  \<open>2^(e - 52)\<close> for a number of exponent \<open>e\<close>, and \<open>2^(-1074)\<close> below the normal range.
\<close>

definition round_double :: "real \<Rightarrow> real" where
  "round_double x =
     (if x = 0 then 0
      else let u = pow2 (max (exponent \<bar>x\<bar>) (- 1022) - 52)
           in of_int (round_half_even (x / u)) * u)"

definition fadd :: "real \<Rightarrow> real \<Rightarrow> real" where
  "fadd x y = round_double (x + y)"

definition fsub :: "real \<Rightarrow> real \<Rightarrow> real" where
  "fsub x y = round_double (x - y)"

definition fmul :: "real \<Rightarrow> real \<Rightarrow> real" where
  "fmul x y = round_double (x * y)"

definition fdiv :: "real \<Rightarrow> real \<Rightarrow> real" where
  "fdiv x y = round_double (x / y)"

section \<open>Data model\<close>

text \<open>
  The script works on pandas tables. A table of candles is a list of rows in
  table order; a timestamp is a pandas \<^verbatim>\<open>datetime64[ns]\<close> value, the number of
  nanoseconds since the epoch; a calendar date is the number of whole days since
  the epoch.
\<close>

type_synonym timestamp = int

record candle =
  time :: timestamp
  "open" :: real
  high :: real
  low :: real
  close :: real

datatype trade_type = LONG | SHORT

record trade =
  Date :: int
  Type :: trade_type
  Entry :: real
  Exit :: real
  PnL :: real
  StopHit :: bool
  EntryTime :: timestamp
  ExitTime :: timestamp

record metrics =
  Total_PnL :: real
  Max_Drawdown :: real
  Total_Trades :: int
  Win_Rate_pct :: real
  Avg_PnL :: real

text \<open>
  The exceptions that the table operations of the script can raise: a position
  outside a table (\<^verbatim>\<open>.iloc[0]\<close>, \<^verbatim>\<open>.iloc[-1]\<close>, \<^verbatim>\<open>.index[-1]\<close> of a table with no
  rows) and a column that a table does not have. A function that can raise
  returns \<open>Inl\<close> of the exception, and \<open>Inr\<close> of its result otherwise.
\<close>

datatype py_error = IndexError | KeyError

section \<open>Session segmenter\<close>

definition ns_per_day :: int where
  "ns_per_day = 86400000000000"

text \<open>\<^verbatim>\<open>df.index.date\<close>: the calendar date of a timestamp.\<close>

definition date_of :: "timestamp \<Rightarrow> int" where
  "date_of ts = ts div ns_per_day"

text \<open>The time of day in microseconds, which is what \<^verbatim>\<open>between_time\<close> compares.\<close>

definition time_micros :: "timestamp \<Rightarrow> int" where
  "time_micros ts = (ts mod ns_per_day) div 1000"

text \<open>
  \<^verbatim>\<open>between_time(start_time, end_time)\<close> with both ends included. The script
  gives the two bounds as strings such as \<^verbatim>\<open>"0:15"\<close>; here they are the times of
  day these parse to, in microseconds. When the start is later than the end
  pandas keeps the times outside the gap, that is the window wraps over midnight.
\<close>

definition in_window :: "int \<Rightarrow> int \<Rightarrow> int \<Rightarrow> bool" where
  "in_window start_time end_time t =
     (if start_time \<le> end_time then start_time \<le> t \<and> t \<le> end_time
      else start_time \<le> t \<or> t \<le> end_time)"

definition between_time :: "int \<Rightarrow> int \<Rightarrow> candle list \<Rightarrow> candle list" where
  "between_time start_time end_time rows =
     filter (\<lambda>c. in_window start_time end_time (time_micros (time c))) rows"

text \<open>
  \<^verbatim>\<open>df.set_index("time").sort_index()\<close>: rows in ascending time order. Rows of
  equal time keep their table order here; pandas does not promise an order among
  them, and the lemmas below use only that the result is sorted and has the same
  rows.
\<close>

definition sort_index :: "candle list \<Rightarrow> candle list" where
  "sort_index rows = sort_key time rows"

text \<open>
  \<^verbatim>\<open>df.groupby("trade_date")\<close>: the group keys in ascending order, and for a
  key the rows of that date in table order.
\<close>

definition group_keys :: "candle list \<Rightarrow> int list" where
  "group_keys df = sort (remdups (map (\<lambda>c. date_of (time c)) df))"

definition get_group :: "candle list \<Rightarrow> int \<Rightarrow> candle list" where
  "get_group df day = filter (\<lambda>c. date_of (time c) = day) df"

text \<open>The \<^verbatim>\<open>day_data\<close> of one iteration of the loop over the days.\<close>

definition session_of :: "candle list \<Rightarrow> int \<Rightarrow> int \<Rightarrow> int \<Rightarrow> candle list" where
  "session_of hist_df start_time end_time day =
     between_time start_time end_time (get_group (sort_index hist_df) day)"

text \<open>\<^verbatim>\<open>.iloc[0]\<close> and \<^verbatim>\<open>.iloc[-1]\<close> (with \<^verbatim>\<open>.index[-1]\<close>) of a table.\<close>

definition iloc_first :: "'a list \<Rightarrow> py_error + 'a" where
  "iloc_first rows = (case rows of [] \<Rightarrow> Inl IndexError | r # _ \<Rightarrow> Inr r)"

definition iloc_last :: "'a list \<Rightarrow> py_error + 'a" where
  "iloc_last rows = (if rows = [] then Inl IndexError else Inr (last rows))"

section \<open>Breakout simulator\<close>

text \<open>
  The scan for the first trigger. A hit gives \<^verbatim>\<open>(entry, trigger_ts, trade_type, sl)\<close>;
  \<^verbatim>\<open>None\<close> is the case where \<^verbatim>\<open>entry\<close> stays \<^verbatim>\<open>None\<close>.
\<close>

fun first_trigger ::
  "real \<Rightarrow> real \<Rightarrow> real \<Rightarrow> candle list \<Rightarrow> (real \<times> timestamp \<times> trade_type \<times> real) option" where
  "first_trigger long_trigger short_trigger sl_pct [] = None"
| "first_trigger long_trigger short_trigger sl_pct (row # rows) =
     (if high row \<ge> long_trigger then
        Some (long_trigger, time row, LONG, fmul long_trigger (fsub 1 sl_pct))
      else if low row \<le> short_trigger then
        Some (short_trigger, time row, SHORT, fmul short_trigger (fadd 1 sl_pct))
      else first_trigger long_trigger short_trigger sl_pct rows)"

text \<open>
  \<^verbatim>\<open>day_data.loc[ts:]\<close> on the sorted time index: the rows from the first one
  whose time is not before \<^verbatim>\<open>ts\<close>. \<^verbatim>\<open>.iloc[1:]\<close> then drops one row.
\<close>

definition loc_from :: "timestamp \<Rightarrow> candle list \<Rightarrow> candle list" where
  "loc_from ts rows = dropWhile (\<lambda>c. time c < ts) rows"

definition rows_after :: "timestamp \<Rightarrow> candle list \<Rightarrow> candle list" where
  "rows_after ts rows = drop 1 (loc_from ts rows)"

text \<open>
  The stop-loss scan. A hit gives \<^verbatim>\<open>(exit_price, exit_ts, stop_hit)\<close>;
  \<^verbatim>\<open>None\<close> is the case where \<^verbatim>\<open>exit_price\<close> stays \<^verbatim>\<open>None\<close>.
\<close>

fun check_stoploss :: "trade_type \<Rightarrow> real \<Rightarrow> candle list \<Rightarrow> (real \<times> timestamp \<times> bool) option" where
  "check_stoploss trade_type sl [] = None"
| "check_stoploss trade_type sl (row # rows) =
     (if trade_type = LONG then
        (if low row \<le> sl then Some (sl, time row, True)
         else check_stoploss trade_type sl rows)
      else
        (if high row \<ge> sl then Some (sl, time row, True)
         else check_stoploss trade_type sl rows))"

text \<open>
  The exit of a trade: the stop if the scan found one, else the close and the
  timestamp of the last row of the session, \<^verbatim>\<open>day_data.iloc[-1]\<close> and
  \<^verbatim>\<open>day_data.index[-1]\<close>.
\<close>

definition trade_exit ::
  "trade_type \<Rightarrow> real \<Rightarrow> candle list \<Rightarrow> candle list \<Rightarrow> py_error + (real \<times> timestamp \<times> bool)" where
  "trade_exit trade_type sl after day_data =
     (case check_stoploss trade_type sl after of
        Some r \<Rightarrow> Inr r
      | None \<Rightarrow>
          (case iloc_last day_data of
             Inl e \<Rightarrow> Inl e
           | Inr row \<Rightarrow> Inr (close row, time row, False)))"

definition pnl_of :: "trade_type \<Rightarrow> real \<Rightarrow> real \<Rightarrow> real" where
  "pnl_of trade_type entry exit_price =
     (if trade_type = LONG then fsub exit_price entry else fsub entry exit_price)"

text \<open>The body of the loop over the days in \<^verbatim>\<open>backtest_intraday_open_breakout\<close>:
  the trades appended for one day, or the exception raised.\<close>

definition day_trades :: "real \<Rightarrow> real \<Rightarrow> int \<Rightarrow> candle list \<Rightarrow> py_error + trade list" where
  "day_trades pct sl_pct day day_data =
     (if day_data = [] then Inr []
      else
        case iloc_first day_data of
          Inl e \<Rightarrow> Inl e
        | Inr row0 \<Rightarrow>
            let day_open = open row0;
                long_trigger = fmul day_open (fadd 1 pct);
                short_trigger = fmul day_open (fsub 1 pct)
            in case first_trigger long_trigger short_trigger sl_pct day_data of
                 None \<Rightarrow> Inr []
               | Some (entry, trigger_ts, trade_type, sl) \<Rightarrow>
                   (case trade_exit trade_type sl (rows_after trigger_ts day_data) day_data of
                      Inl e \<Rightarrow> Inl e
                    | Inr (exit_price, exit_ts, stop_hit) \<Rightarrow>
                        Inr [\<lparr>Date = day, Type = trade_type, Entry = entry, Exit = exit_price,
                              PnL = pnl_of trade_type entry exit_price, StopHit = stop_hit,
                              EntryTime = trigger_ts, ExitTime = exit_ts\<rparr>]))"

text \<open>The second trade of \<^verbatim>\<open>backtest_intraday_open_breakout2\<close>, entered where the
  first one was stopped.\<close>

definition second_trade ::
  "real \<Rightarrow> int \<Rightarrow> candle list \<Rightarrow> trade_type \<Rightarrow> real \<Rightarrow> timestamp \<Rightarrow> py_error + trade" where
  "second_trade sl_pct day day_data trade_type exit_price exit_ts =
     (let opposite_type = (if trade_type = LONG then SHORT else LONG);
          opp_entry = exit_price;
          opp_trigger_ts = exit_ts;
          opp_sl = (if opposite_type = LONG then fmul opp_entry (fsub 1 sl_pct)
                    else fmul opp_entry (fadd 1 sl_pct))
      in case trade_exit opposite_type opp_sl (rows_after opp_trigger_ts day_data) day_data of
           Inl e \<Rightarrow> Inl e
         | Inr (opp_exit_price, opp_exit_ts, opp_stop_hit) \<Rightarrow>
             Inr \<lparr>Date = day, Type = opposite_type, Entry = opp_entry, Exit = opp_exit_price,
                  PnL = pnl_of opposite_type opp_entry opp_exit_price, StopHit = opp_stop_hit,
                  EntryTime = opp_trigger_ts, ExitTime = opp_exit_ts\<rparr>)"

text \<open>The body of the loop over the days in \<^verbatim>\<open>backtest_intraday_open_breakout2\<close>.
  \<^verbatim>\<open>trade_count\<close> is 1 when the second trade is considered.\<close>

definition day_trades2 :: "real \<Rightarrow> real \<Rightarrow> int \<Rightarrow> candle list \<Rightarrow> py_error + trade list" where
  "day_trades2 pct sl_pct day day_data =
     (if day_data = [] then Inr []
      else
        case iloc_first day_data of
          Inl e \<Rightarrow> Inl e
        | Inr row0 \<Rightarrow>
            let day_open = open row0;
                long_trigger = fmul day_open (fadd 1 pct);
                short_trigger = fmul day_open (fsub 1 pct)
            in case first_trigger long_trigger short_trigger sl_pct day_data of
                 None \<Rightarrow> Inr []
               | Some (entry, trigger_ts, trade_type, sl) \<Rightarrow>
                   (case trade_exit trade_type sl (rows_after trigger_ts day_data) day_data of
                      Inl e \<Rightarrow> Inl e
                    | Inr (exit_price, exit_ts, stop_hit) \<Rightarrow>
                        let first = \<lparr>Date = day, Type = trade_type, Entry = entry,
                                     Exit = exit_price,
                                     PnL = pnl_of trade_type entry exit_price,
                                     StopHit = stop_hit, EntryTime = trigger_ts,
                                     ExitTime = exit_ts\<rparr>;
                            trade_count = (1::nat)
                        in if stop_hit \<and> trade_count < 2
                           then (case second_trade sl_pct day day_data trade_type
                                        exit_price exit_ts of
                                   Inl e \<Rightarrow> Inl e
                                 | Inr second \<Rightarrow> Inr [first, second])
                           else Inr [first]))"

text \<open>\<^verbatim>\<open>if sl_pct is None: sl_pct = pct\<close>\<close>

definition normalize_sl :: "real \<Rightarrow> real option \<Rightarrow> real" where
  "normalize_sl pct sl_pct = (case sl_pct of None \<Rightarrow> pct | Some s \<Rightarrow> s)"

text \<open>
  The loop over the days: the trades of each day are appended to \<^verbatim>\<open>trades\<close> in
  turn, and an exception in the body of a day ends the run.
\<close>

fun for_each_day :: "(int \<Rightarrow> py_error + trade list) \<Rightarrow> int list \<Rightarrow> py_error + trade list" where
  "for_each_day body [] = Inr []"
| "for_each_day body (day # days) =
     (case body day of
        Inl e \<Rightarrow> Inl e
      | Inr new \<Rightarrow>
          (case for_each_day body days of
             Inl e \<Rightarrow> Inl e
           | Inr rest \<Rightarrow> Inr (new @ rest)))"

text \<open>The list \<^verbatim>\<open>trades\<close> when the loop over the days has ended.\<close>

definition collect_trades ::
  "candle list \<Rightarrow> real \<Rightarrow> real option \<Rightarrow> int \<Rightarrow> int \<Rightarrow> py_error + trade list" where
  "collect_trades hist_df pct sl_pct start_time end_time =
     for_each_day
       (\<lambda>day. day_trades pct (normalize_sl pct sl_pct) day
                 (session_of hist_df start_time end_time day))
       (group_keys (sort_index hist_df))"

definition collect_trades2 ::
  "candle list \<Rightarrow> real \<Rightarrow> real option \<Rightarrow> int \<Rightarrow> int \<Rightarrow> py_error + trade list" where
  "collect_trades2 hist_df pct sl_pct start_time end_time =
     for_each_day
       (\<lambda>day. day_trades2 pct (normalize_sl pct sl_pct) day
                 (session_of hist_df start_time end_time day))
       (group_keys (sort_index hist_df))"

section \<open>Ledger aggregator\<close>

text \<open>
  \<^verbatim>\<open>pd.DataFrame(trades)\<close> has the columns of the trade records when there is at
  least one, and no column at all when \<^verbatim>\<open>trades\<close> is empty. Reading or sorting by
  a column of the table with no column raises \<^verbatim>\<open>KeyError\<close>.
\<close>

definition column_of :: "(trade \<Rightarrow> 'a) \<Rightarrow> trade list \<Rightarrow> py_error + 'a list" where
  "column_of col trades_df = (if trades_df = [] then Inl KeyError else Inr (map col trades_df))"

definition sort_values :: "(trade \<Rightarrow> 'k::linorder) \<Rightarrow> trade list \<Rightarrow> py_error + trade list" where
  "sort_values by trades_df =
     (if trades_df = [] then Inl KeyError else Inr (sort_key by trades_df))"

text \<open>\<^verbatim>\<open>Series.cumsum()\<close>: the running sum, each step one float addition.\<close>

fun cumsum_from :: "real \<Rightarrow> real list \<Rightarrow> real list" where
  "cumsum_from acc [] = []"
| "cumsum_from acc (x # xs) = fadd acc x # cumsum_from (fadd acc x) xs"

fun cumsum :: "real list \<Rightarrow> real list" where
  "cumsum [] = []"
| "cumsum (x # xs) = x # cumsum_from x xs"

fun cummax_from :: "real \<Rightarrow> real list \<Rightarrow> real list" where
  "cummax_from m [] = []"
| "cummax_from m (x # xs) = max m x # cummax_from (max m x) xs"

fun cummax :: "real list \<Rightarrow> real list" where
  "cummax [] = []"
| "cummax (x # xs) = x # cummax_from x xs"

text \<open>\<^verbatim>\<open>Series.min()\<close>. The script calls it only on a table with at least one
  row; the first equation is never reached.\<close>

fun series_min :: "real list \<Rightarrow> real" where
  "series_min [] = 0"
| "series_min (x # xs) = fold min xs x"

text \<open>
  \<^verbatim>\<open>Series.sum()\<close>, added from left to right. On a long column pandas may add
  the entries in another order, which can change the last bits of the sum; no
  claim is about the value of \<open>Total_PnL\<close> or \<open>Avg_PnL\<close> of a table with trades.
\<close>

fun series_sum :: "real list \<Rightarrow> real" where
  "series_sum [] = 0"
| "series_sum (x # xs) = fold (\<lambda>y acc. fadd acc y) xs x"

definition zero_metrics :: metrics where
  "zero_metrics = \<lparr>Total_PnL = 0, Max_Drawdown = 0, Total_Trades = 0,
                    Win_Rate_pct = 0, Avg_PnL = 0\<rparr>"

text \<open>The metrics block, from \<^verbatim>\<open>total_pnl = trades_df["PnL"].sum()\<close> on.\<close>

definition compute_metrics :: "trade list \<Rightarrow> py_error + metrics" where
  "compute_metrics trades_df =
     (case column_of PnL trades_df of
        Inl e \<Rightarrow> Inl e
      | Inr pnls \<Rightarrow>
          let total_pnl = series_sum pnls;
              cumulative = cumsum pnls;
              running_max = cummax cumulative;
              drawdown = map2 fsub cumulative running_max;
              max_dd = series_min drawdown;
              total_trades = int (length trades_df);
              win_rate = fmul (fdiv (real (length (filter (\<lambda>p. p > 0) pnls)))
                                    (real (length pnls))) 100;
              avg_pnl = fdiv total_pnl (real (length pnls))
          in Inr \<lparr>Total_PnL = total_pnl, Max_Drawdown = max_dd, Total_Trades = total_trades,
                  Win_Rate_pct = win_rate, Avg_PnL = avg_pnl\<rparr>)"

text \<open>
  The two entry points. \<^verbatim>\<open>sort_values\<close> is modelled by a stable sort: on the
  two columns \<^verbatim>\<open>["Date", "EntryTime"]\<close> pandas sorts stably, and on \<^verbatim>\<open>"Date"\<close>
  alone the rows of the first variant have distinct keys (lemma
  \<open>collect_trades_distinct_dates\<close>).
\<close>

definition backtest_intraday_open_breakout ::
  "candle list \<Rightarrow> real \<Rightarrow> real option \<Rightarrow> int \<Rightarrow> int \<Rightarrow> py_error + (trade list \<times> metrics)" where
  "backtest_intraday_open_breakout hist_df pct sl_pct start_time end_time =
     (case collect_trades hist_df pct sl_pct start_time end_time of
        Inl e \<Rightarrow> Inl e
      | Inr trades \<Rightarrow>
          if trades = [] then Inr (trades, zero_metrics)
          else (case sort_values Date trades of
                  Inl e \<Rightarrow> Inl e
                | Inr trades_df \<Rightarrow>
                    (case compute_metrics trades_df of
                       Inl e \<Rightarrow> Inl e
                     | Inr m \<Rightarrow> Inr (trades_df, m))))"

definition backtest_intraday_open_breakout2 ::
  "candle list \<Rightarrow> real \<Rightarrow> real option \<Rightarrow> int \<Rightarrow> int \<Rightarrow> py_error + (trade list \<times> metrics)" where
  "backtest_intraday_open_breakout2 hist_df pct sl_pct start_time end_time =
     (case collect_trades2 hist_df pct sl_pct start_time end_time of
        Inl e \<Rightarrow> Inl e
      | Inr trades \<Rightarrow>
          if trades = [] then Inr (trades, zero_metrics)
          else (case sort_values (\<lambda>t. (Date t, EntryTime t)) trades of
                  Inl e \<Rightarrow> Inl e
                | Inr trades_df \<Rightarrow>
                    (case compute_metrics trades_df of
                       Inl e \<Rightarrow> Inl e
                     | Inr m \<Rightarrow> Inr (trades_df, m))))"

section \<open>Date filter\<close>

text \<open>
  \<^verbatim>\<open>filter_by_date\<close> gets its two bounds as date strings \<^verbatim>\<open>YYYY-MM-DD\<close>, here
  calendar dates. Comparing the time column with such a string compares with
  the timestamp the string parses to, which is midnight at the start of that
  date. The result is a new table, whose rows are numbered from 0 again; the
  table given is not changed.
\<close>

definition midnight :: "int \<Rightarrow> timestamp" where
  "midnight d = d * ns_per_day"

definition filter_by_date :: "candle list \<Rightarrow> int \<Rightarrow> int \<Rightarrow> candle list" where
  "filter_by_date df start_date end_date =
     filter (\<lambda>c. time c \<ge> midnight start_date \<and> time c \<le> midnight end_date) df"

text \<open>The rows of the closed date range, as the description of the helper words it:
  every row whose calendar date is from \<open>start_date\<close> to \<open>end_date\<close>.\<close>

definition rows_in_date_range :: "candle list \<Rightarrow> int \<Rightarrow> int \<Rightarrow> candle list" where
  "rows_in_date_range df start_date end_date =
     filter (\<lambda>c. start_date \<le> date_of (time c) \<and> date_of (time c) \<le> end_date) df"

section \<open>A worked example\<close>

text \<open>
  One session of three candles: the first opens at 100, the second has a high
  of 101.5, the third a low of 100.4. The parameters are the floats that the
  literals \<^verbatim>\<open>0.01\<close> and \<^verbatim>\<open>0.005\<close> denote, and the time window is the whole day.
  The second candle triggers a LONG and the third one stops it.
\<close>

definition example_candles :: "candle list" where
  "example_candles =
     [\<lparr>time = 0, open = 100, high = 100.5, low = 99.5, close = 100\<rparr>,
      \<lparr>time = 300000000000, open = 100, high = 101.5, low = 100.75, close = 101.25\<rparr>,
      \<lparr>time = 600000000000, open = 101, high = 101.125, low = round_double 100.4,
        close = 100.5\<rparr>]"

definition example_pct :: real where
  "example_pct = round_double 0.01"

definition example_sl_pct :: real where
  "example_sl_pct = round_double 0.005"

definition end_of_day :: int where
  "end_of_day = 86399999999"

text \<open>A session whose second candle reaches both trigger levels of \<open>example_pct\<close>.\<close>

definition both_sides_example :: "candle list" where
  "both_sides_example =
     [\<lparr>time = 0, open = 100, high = 100.5, low = 99.5, close = 100\<rparr>,
      \<lparr>time = 300000000000, open = 100, high = 101.5, low = 98.5, close = 99.5\<rparr>]"

section \<open>Properties of the float operations\<close>

lemma round_double_0: "round_double 0 = 0"
  by (simp add: round_double_def)

lemma fsub_self: "fsub x x = 0"
  by (simp add: fsub_def round_double_0)

section \<open>Properties of the session segmenter and of the scans\<close>

subsection \<open>Sessions\<close>

lemma sorted_sort_index: "sorted (map time (sort_index rows))"
  by (simp add: sort_index_def)

lemma set_sort_index: "set (sort_index rows) = set rows"
  by (simp add: sort_index_def)

lemma sorted_session: "sorted (map time (session_of hist_df start_time end_time day))"
  by (simp add: session_of_def between_time_def get_group_def sorted_sort_index sorted_filter)

lemma session_member:
  "c \<in> set (session_of hist_df start_time end_time day) \<longleftrightarrow>
     c \<in> set hist_df \<and> date_of (time c) = day \<and>
     in_window start_time end_time (time_micros (time c))"
  by (auto simp: session_of_def between_time_def get_group_def set_sort_index)

lemma session_empty_outside:
  "day \<notin> set (group_keys (sort_index hist_df)) \<Longrightarrow> session_of hist_df start_time end_time day = []"
  by (auto simp: session_of_def between_time_def get_group_def group_keys_def filter_empty_conv)

lemma group_keys_strict: "sorted_wrt (<) (group_keys df)"
  by (simp add: group_keys_def strict_sorted_iff)

text \<open>What the script would raise on a session with no candle, were it not
  skipped.\<close>

lemma iloc_empty: "iloc_first [] = Inl IndexError" "iloc_last [] = Inl IndexError"
  by (simp_all add: iloc_first_def iloc_last_def)

lemma iloc_first_Cons: "rows \<noteq> [] \<Longrightarrow> iloc_first rows = Inr (hd rows)"
  by (cases rows) (simp_all add: iloc_first_def)

lemma iloc_last_Cons: "rows \<noteq> [] \<Longrightarrow> iloc_last rows = Inr (last rows)"
  by (simp add: iloc_last_def)

subsection \<open>The two scans\<close>

lemma first_trigger_Some:
  "first_trigger lt st sl_pct rows = Some (entry, ts, tt, sl) \<Longrightarrow>
     (\<exists>c \<in> set rows. time c = ts) \<and>
     ((tt = LONG \<and> entry = lt \<and> sl = fmul lt (fsub 1 sl_pct)) \<or>
      (tt = SHORT \<and> entry = st \<and> sl = fmul st (fadd 1 sl_pct)))"
  by (induction rows) (auto split: if_splits)

lemma first_trigger_None:
  "first_trigger lt st sl_pct rows = None \<longleftrightarrow> (\<forall>c \<in> set rows. high c < lt \<and> st < low c)"
  by (induction rows) auto

lemma check_stoploss_Some:
  "check_stoploss tt sl rows = Some (p, ts, hit) \<Longrightarrow>
     p = sl \<and> hit \<and> (\<exists>c \<in> set rows. time c = ts)"
  by (induction rows) (auto split: if_splits)

lemma rows_after_subset: "set (rows_after ts rows) \<subseteq> set rows"
  by (auto simp: rows_after_def loc_from_def dest: in_set_dropD set_dropWhileD)

lemma loc_from_ge:
  "sorted (map time rows) \<Longrightarrow> c \<in> set (loc_from ts rows) \<Longrightarrow> ts \<le> time c"
  unfolding loc_from_def
proof (induction rows)
  case Nil
  then show ?case by simp
next
  case (Cons r rows)
  then show ?case by (auto split: if_splits)
qed

lemma rows_after_ge:
  "sorted (map time rows) \<Longrightarrow> c \<in> set (rows_after ts rows) \<Longrightarrow> ts \<le> time c"
  by (auto simp: rows_after_def dest: in_set_dropD loc_from_ge)

lemma time_le_last:
  "sorted (map time rows) \<Longrightarrow> c \<in> set rows \<Longrightarrow> time c \<le> time (last rows)"
  by (induction rows) (auto)

lemma trade_exit_total:
  "rows \<noteq> [] \<Longrightarrow> \<exists>r. trade_exit tt sl after rows = Inr r"
  by (cases "check_stoploss tt sl after") (auto simp: trade_exit_def iloc_last_Cons)

lemma trade_exit_props:
  assumes "sorted (map time rows)" and "c0 \<in> set rows" and "time c0 = ts"
    and "trade_exit tt sl (rows_after ts rows) rows = Inr (p, xts, hit)"
  shows "ts \<le> xts" and "\<exists>c \<in> set rows. time c = xts"
    and "hit \<Longrightarrow> p = sl"
    and "\<not> hit \<Longrightarrow> p = close (last rows) \<and> xts = time (last rows)"
proof -
  have ne: "rows \<noteq> []" using assms(2) by auto
  show "ts \<le> xts"
  proof (cases "check_stoploss tt sl (rows_after ts rows)")
    case None
    then have "xts = time (last rows)"
      using assms(4) by (simp add: trade_exit_def iloc_last_Cons[OF ne])
    then show ?thesis using time_le_last[OF assms(1,2)] assms(3) by simp
  next
    case (Some r)
    then have "check_stoploss tt sl (rows_after ts rows) = Some (p, xts, hit)"
      using assms(4) by (simp add: trade_exit_def)
    then obtain c where "c \<in> set (rows_after ts rows)" "time c = xts"
      using check_stoploss_Some by blast
    then show ?thesis using rows_after_ge[OF assms(1)] by blast
  qed
  show "\<exists>c \<in> set rows. time c = xts"
  proof (cases "check_stoploss tt sl (rows_after ts rows)")
    case None
    then have "xts = time (last rows)"
      using assms(4) by (simp add: trade_exit_def iloc_last_Cons[OF ne])
    then show ?thesis using ne last_in_set by blast
  next
    case (Some r)
    then have "check_stoploss tt sl (rows_after ts rows) = Some (p, xts, hit)"
      using assms(4) by (simp add: trade_exit_def)
    then obtain c where "c \<in> set (rows_after ts rows)" "time c = xts"
      using check_stoploss_Some by blast
    then show ?thesis using rows_after_subset by blast
  qed
  show "hit \<Longrightarrow> p = sl"
    using assms(4)
    by (auto simp: trade_exit_def iloc_last_Cons[OF ne] split: option.splits
          dest: check_stoploss_Some)
  show "\<not> hit \<Longrightarrow> p = close (last rows) \<and> xts = time (last rows)"
    using assms(4)
    by (auto simp: trade_exit_def iloc_last_Cons[OF ne] split: option.splits
          dest: check_stoploss_Some)
qed

subsection \<open>The trades of one day\<close>

lemma day_trades_total: "\<exists>ts. day_trades pct sl_pct day s = Inr ts"
proof (cases "s = []")
  case True
  then show ?thesis by (simp add: day_trades_def)
next
  case False
  show ?thesis
  proof (cases "first_trigger (fmul (open (hd s)) (fadd 1 pct)) (fmul (open (hd s)) (fsub 1 pct))
                  sl_pct s")
    case None
    then show ?thesis by (simp add: day_trades_def iloc_first_Cons[OF False] Let_def False)
  next
    case (Some a)
    obtain entry ts tt sl where a: "a = (entry, ts, tt, sl)" by (cases a) auto
    from trade_exit_total[OF False, of tt sl "rows_after ts s"]
    obtain r where "trade_exit tt sl (rows_after ts s) s = Inr r" by blast
    with Some a show ?thesis
      by (simp add: day_trades_def iloc_first_Cons[OF False] Let_def False split: prod.splits)
  qed
qed

lemma second_trade_total:
  "s \<noteq> [] \<Longrightarrow> \<exists>t. second_trade sl_pct day s tt exit_price exit_ts = Inr t"
proof -
  assume ne: "s \<noteq> []"
  define ot where "ot = (if tt = LONG then SHORT else LONG)"
  define osl where "osl = (if ot = LONG then fmul exit_price (fsub 1 sl_pct)
                           else fmul exit_price (fadd 1 sl_pct))"
  from trade_exit_total[OF ne, of ot osl "rows_after exit_ts s"]
  obtain r where "trade_exit ot osl (rows_after exit_ts s) s = Inr r" by blast
  then show ?thesis
    by (simp add: second_trade_def Let_def ot_def osl_def split: prod.splits)
qed

lemma day_trades2_via_day_trades:
  "day_trades2 pct sl_pct day s =
     (case day_trades pct sl_pct day s of
        Inl e \<Rightarrow> Inl e
      | Inr [] \<Rightarrow> Inr []
      | Inr (t # _) \<Rightarrow>
          if StopHit t
          then (case second_trade sl_pct day s (Type t) (Exit t) (ExitTime t) of
                  Inl e \<Rightarrow> Inl e
                | Inr t2 \<Rightarrow> Inr [t, t2])
          else Inr [t])"
  by (simp add: day_trades2_def day_trades_def Let_def
        split: option.splits prod.splits sum.splits)

lemma length_day_trades: "day_trades pct sl_pct day s = Inr ts \<Longrightarrow> length ts \<le> 1"
  by (auto simp: day_trades_def Let_def split: option.splits prod.splits sum.splits if_splits)

lemma day_trades2_total: "\<exists>ts. day_trades2 pct sl_pct day s = Inr ts"
proof -
  obtain ts where ts: "day_trades pct sl_pct day s = Inr ts"
    using day_trades_total by blast
  show ?thesis
  proof (cases ts)
    case Nil
    with ts show ?thesis by (simp add: day_trades2_via_day_trades)
  next
    case (Cons t rest)
    have ne: "s \<noteq> []" using ts Cons by (auto simp: day_trades_def)
    from second_trade_total[OF ne, of sl_pct day "Type t" "Exit t" "ExitTime t"]
    obtain t2 where "second_trade sl_pct day s (Type t) (Exit t) (ExitTime t) = Inr t2" by blast
    with ts Cons show ?thesis by (simp add: day_trades2_via_day_trades)
  qed
qed

lemma length_day_trades2: "day_trades2 pct sl_pct day s = Inr ts \<Longrightarrow> length ts \<le> 2"
  by (auto simp: day_trades2_via_day_trades split: sum.splits list.splits if_splits)

text \<open>What holds of the first trade of a day.\<close>

lemma first_trade_props:
  assumes srt: "sorted (map time s)" and dt: "day_trades pct sl_pct day s = Inr (t # ts)"
  shows "Date t = day"
    and "StopHit t \<Longrightarrow>
           Exit t = (if Type t = LONG then fmul (Entry t) (fsub 1 sl_pct)
                     else fmul (Entry t) (fadd 1 sl_pct))"
    and "\<not> StopHit t \<Longrightarrow> Exit t = close (last s) \<and> ExitTime t = time (last s)"
    and "PnL t = (if Type t = LONG then fsub (Exit t) (Entry t) else fsub (Entry t) (Exit t))"
    and "EntryTime t \<le> ExitTime t"
    and "\<exists>c \<in> set s. time c = EntryTime t"
    and "\<exists>c \<in> set s. time c = ExitTime t"
    and "ts = []"
    and "s \<noteq> []"
proof -
  define lt where "lt = fmul (open (hd s)) (fadd 1 pct)"
  define st where "st = fmul (open (hd s)) (fsub 1 pct)"
  from dt show ne: "s \<noteq> []" by (auto simp: day_trades_def)
  note i = iloc_first_Cons[OF ne]
  from dt obtain entry trig tt sl where
    ft: "first_trigger lt st sl_pct s = Some (entry, trig, tt, sl)"
    by (cases "first_trigger lt st sl_pct s") (auto simp: day_trades_def Let_def lt_def st_def ne i)
  from trade_exit_total[OF ne, of tt sl "rows_after trig s"]
  obtain p xts hit where te: "trade_exit tt sl (rows_after trig s) s = Inr (p, xts, hit)"
    by (metis prod_cases3)
  from dt ft te ne have t: "t = \<lparr>Date = day, Type = tt, Entry = entry, Exit = p,
      PnL = pnl_of tt entry p, StopHit = hit, EntryTime = trig, ExitTime = xts\<rparr>"
    and "ts = []"
    by (auto simp: day_trades_def Let_def lt_def st_def i)
  from first_trigger_Some[OF ft] obtain c0 where c0: "c0 \<in> set s" "time c0 = trig"
    and dir: "(tt = LONG \<and> entry = lt \<and> sl = fmul lt (fsub 1 sl_pct)) \<or>
              (tt = SHORT \<and> entry = st \<and> sl = fmul st (fadd 1 sl_pct))"
    by blast
  note x = trade_exit_props[OF srt c0 te]
  show "Date t = day" by (simp add: t)
  show "StopHit t \<Longrightarrow>
           Exit t = (if Type t = LONG then fmul (Entry t) (fsub 1 sl_pct)
                     else fmul (Entry t) (fadd 1 sl_pct))"
    using x(3) dir by (auto simp: t)
  show "\<not> StopHit t \<Longrightarrow> Exit t = close (last s) \<and> ExitTime t = time (last s)"
    using x(4) by (simp add: t)
  show "PnL t = (if Type t = LONG then fsub (Exit t) (Entry t) else fsub (Entry t) (Exit t))"
    by (simp add: t pnl_of_def)
  show "EntryTime t \<le> ExitTime t" using x(1) by (simp add: t)
  show "\<exists>c \<in> set s. time c = EntryTime t" using c0 by (auto simp: t)
  show "\<exists>c \<in> set s. time c = ExitTime t" using x(2) by (simp add: t)
  show "ts = []" by fact
qed

text \<open>What holds of the second trade, entered at the exit of a first trade.\<close>

lemma second_trade_props:
  assumes srt: "sorted (map time s)" and c0: "c0 \<in> set s" "time c0 = exit_ts"
    and t: "second_trade sl_pct day s tt exit_price exit_ts = Inr t"
  shows "Date t = day"
    and "Type t = (if tt = LONG then SHORT else LONG)"
    and "Entry t = exit_price" and "EntryTime t = exit_ts"
    and "StopHit t \<Longrightarrow>
           Exit t = (if Type t = LONG then fmul (Entry t) (fsub 1 sl_pct)
                     else fmul (Entry t) (fadd 1 sl_pct))"
    and "\<not> StopHit t \<Longrightarrow> Exit t = close (last s) \<and> ExitTime t = time (last s)"
    and "PnL t = (if Type t = LONG then fsub (Exit t) (Entry t) else fsub (Entry t) (Exit t))"
    and "EntryTime t \<le> ExitTime t"
    and "\<exists>c \<in> set s. time c = ExitTime t"
proof -
  define ot where "ot = (if tt = LONG then SHORT else LONG)"
  define osl where "osl = (if ot = LONG then fmul exit_price (fsub 1 sl_pct)
                           else fmul exit_price (fadd 1 sl_pct))"
  have ne: "s \<noteq> []" using c0 by auto
  from trade_exit_total[OF ne, of ot osl "rows_after exit_ts s"]
  obtain p xts hit where te: "trade_exit ot osl (rows_after exit_ts s) s = Inr (p, xts, hit)"
    by (metis prod_cases3)
  have t': "t = \<lparr>Date = day, Type = ot, Entry = exit_price, Exit = p,
      PnL = pnl_of ot exit_price p, StopHit = hit, EntryTime = exit_ts, ExitTime = xts\<rparr>"
    using te t by (simp add: second_trade_def Let_def ot_def osl_def)
  note x = trade_exit_props[OF srt c0 te]
  show "Date t = day" by (simp add: t')
  show "Type t = (if tt = LONG then SHORT else LONG)" by (simp add: t' ot_def)
  show "Entry t = exit_price" by (simp add: t')
  show "EntryTime t = exit_ts" by (simp add: t')
  show "StopHit t \<Longrightarrow>
           Exit t = (if Type t = LONG then fmul (Entry t) (fsub 1 sl_pct)
                     else fmul (Entry t) (fadd 1 sl_pct))"
    using x(3) by (simp add: t' osl_def)
  show "\<not> StopHit t \<Longrightarrow> Exit t = close (last s) \<and> ExitTime t = time (last s)"
    using x(4) by (simp add: t')
  show "PnL t = (if Type t = LONG then fsub (Exit t) (Entry t) else fsub (Entry t) (Exit t))"
    by (simp add: t' pnl_of_def)
  show "EntryTime t \<le> ExitTime t" using x(1) by (simp add: t')
  show "\<exists>c \<in> set s. time c = ExitTime t" using x(2) by (simp add: t')
qed

text \<open>The rows of a day in the second variant: the first trade alone, or the
  first trade and the reversal.\<close>

lemma day_trades2_cases:
  assumes "day_trades2 pct sl_pct day s = Inr ts"
  shows "ts = [] \<and> day_trades pct sl_pct day s = Inr [] \<or>
         (\<exists>t1. day_trades pct sl_pct day s = Inr [t1] \<and> \<not> StopHit t1 \<and> ts = [t1]) \<or>
         (\<exists>t1 t2. day_trades pct sl_pct day s = Inr [t1] \<and> StopHit t1 \<and>
            second_trade sl_pct day s (Type t1) (Exit t1) (ExitTime t1) = Inr t2 \<and>
            ts = [t1, t2])"
proof -
  obtain us where us: "day_trades pct sl_pct day s = Inr us"
    using day_trades_total by blast
  show ?thesis
  proof (cases us)
    case Nil
    with us assms show ?thesis by (simp add: day_trades2_via_day_trades)
  next
    case (Cons t1 rest)
    with length_day_trades[OF us] have rest: "rest = []" by simp
    with us Cons assms show ?thesis
      by (auto simp: day_trades2_via_day_trades split: if_splits sum.splits)
  qed
qed

lemma day_trades_subset:
  assumes "day_trades pct sl_pct day s = Inr ts" and "day_trades2 pct sl_pct day s = Inr ts2"
  shows "set ts \<subseteq> set ts2"
  using day_trades2_cases[OF assms(2)] assms(1) by auto

lemma day_trades2_member:
  assumes srt: "sorted (map time s)" and dt: "day_trades2 pct sl_pct day s = Inr ts"
    and mem: "t \<in> set ts"
  shows "Date t = day"
    and "StopHit t \<Longrightarrow>
           Exit t = (if Type t = LONG then fmul (Entry t) (fsub 1 sl_pct)
                     else fmul (Entry t) (fadd 1 sl_pct))"
    and "\<not> StopHit t \<Longrightarrow> Exit t = close (last s) \<and> ExitTime t = time (last s)"
    and "PnL t = (if Type t = LONG then fsub (Exit t) (Entry t) else fsub (Entry t) (Exit t))"
    and "EntryTime t \<le> ExitTime t"
    and "\<exists>c \<in> set s. time c = EntryTime t"
    and "\<exists>c \<in> set s. time c = ExitTime t"
proof -
  from day_trades2_cases[OF dt] mem obtain t1 where d1: "day_trades pct sl_pct day s = Inr [t1]"
    and cases: "t = t1 \<or> (\<exists>t2. second_trade sl_pct day s (Type t1) (Exit t1) (ExitTime t1) = Inr t2
                  \<and> t = t2)"
    by auto
  note f = first_trade_props[OF srt d1]
  from f(7) obtain c0 where c0: "c0 \<in> set s" "time c0 = ExitTime t1" by blast
  show "Date t = day" using cases f(1) second_trade_props(1)[OF srt c0] by auto
  show "StopHit t \<Longrightarrow>
           Exit t = (if Type t = LONG then fmul (Entry t) (fsub 1 sl_pct)
                     else fmul (Entry t) (fadd 1 sl_pct))"
    using cases f(2) second_trade_props(5)[OF srt c0] by blast
  show "\<not> StopHit t \<Longrightarrow> Exit t = close (last s) \<and> ExitTime t = time (last s)"
    using cases f(3) second_trade_props(6)[OF srt c0] by blast
  show "PnL t = (if Type t = LONG then fsub (Exit t) (Entry t) else fsub (Entry t) (Exit t))"
    using cases f(4) second_trade_props(7)[OF srt c0] by blast
  show "EntryTime t \<le> ExitTime t" using cases f(5) second_trade_props(8)[OF srt c0] by blast
  show "\<exists>c \<in> set s. time c = EntryTime t"
    using cases f(6) second_trade_props(4)[OF srt c0] c0 by auto
  show "\<exists>c \<in> set s. time c = ExitTime t"
    using cases f(7) second_trade_props(9)[OF srt c0] by blast
qed

lemma day_trades2_sorted:
  assumes srt: "sorted (map time s)" and dt: "day_trades2 pct sl_pct day s = Inr ts"
  shows "sorted (map (\<lambda>t. (Date t, EntryTime t)) ts)"
proof -
  from day_trades2_cases[OF dt] consider "ts = []" | t1 where "ts = [t1]"
    | t1 t2 where "day_trades pct sl_pct day s = Inr [t1]"
        "second_trade sl_pct day s (Type t1) (Exit t1) (ExitTime t1) = Inr t2" "ts = [t1, t2]"
    by blast
  then show ?thesis
  proof cases
    case 1
    then show ?thesis by simp
  next
    case 2
    then show ?thesis by simp
  next
    case 3
    note f = first_trade_props[OF srt 3(1)]
    from f(7) obtain c0 where c0: "c0 \<in> set s" "time c0 = ExitTime t1" by blast
    note g = second_trade_props[OF srt c0 3(2)]
    have "(Date t1, EntryTime t1) \<le> (Date t2, EntryTime t2)"
      using f(1,5) g(1,4) by (simp add: less_eq_prod_def)
    then show ?thesis by (simp add: 3(3))
  qed
qed

subsection \<open>The ledger\<close>

lemma for_each_day_concat:
  assumes "\<And>d. body d = Inr (f d)"
  shows "for_each_day body ds = Inr (concat (map f ds))"
  by (induction ds) (simp_all add: assms)

lemma sorted_concat_map:
  assumes "sorted_wrt (<) ds"
    and "\<And>d. sorted (map k (f d))"
    and "\<And>d d' x y. d < d' \<Longrightarrow> x \<in> set (f d) \<Longrightarrow> y \<in> set (f d') \<Longrightarrow> k x \<le> k y"
  shows "sorted (map k (concat (map f ds)))"
  using assms(1)
proof (induction ds)
  case Nil
  then show ?case by simp
next
  case (Cons d ds)
  then have "sorted (map k (concat (map f ds)))" by simp
  moreover have "\<forall>x \<in> set (f d). \<forall>y \<in> set (concat (map f ds)). k x \<le> k y"
    using Cons.prems assms(3) by auto
  ultimately show ?case
    using assms(2)[of d] by (simp add: sorted_append)
qed

lemma filter_concat_map_key:
  assumes "distinct ds" and "\<And>d x. x \<in> set (f d) \<Longrightarrow> k x = d"
  shows "filter (\<lambda>x. k x = d) (concat (map f ds)) = (if d \<in> set ds then f d else [])"
  using assms(1)
proof (induction ds)
  case Nil
  then show ?case by simp
next
  case (Cons e ds)
  have same: "\<And>a. filter (\<lambda>x. k x = a) (f a) = f a"
    using assms(2) by (simp add: filter_id_conv)
  have other: "\<And>a b. a \<noteq> b \<Longrightarrow> filter (\<lambda>x. k x = b) (f a) = []"
    using assms(2) by (auto simp: filter_empty_conv)
  show ?case
  proof (cases "e = d")
    case True
    with Cons show ?thesis by (simp add: same)
  next
    case False
    with Cons show ?thesis by (simp add: other)
  qed
qed

text \<open>
  The loop over the days never raises. Its result is the concatenation, in
  ascending order of the dates, of the rows that the body appends for each day.
\<close>

lemma collect_trades_concat:
  "\<exists>f. (\<forall>day. day_trades pct (normalize_sl pct sl_pct) day
                  (session_of hist_df start_time end_time day) = Inr (f day)) \<and>
       collect_trades hist_df pct sl_pct start_time end_time =
         Inr (concat (map f (group_keys (sort_index hist_df))))"
proof -
  define f where "f = (\<lambda>day. projr (day_trades pct (normalize_sl pct sl_pct) day
                  (session_of hist_df start_time end_time day)))"
  have f: "\<And>day. day_trades pct (normalize_sl pct sl_pct) day
                  (session_of hist_df start_time end_time day) = Inr (f day)"
  proof -
    fix day
    obtain ts where "day_trades pct (normalize_sl pct sl_pct) day
                  (session_of hist_df start_time end_time day) = Inr ts"
      using day_trades_total by blast
    then show "day_trades pct (normalize_sl pct sl_pct) day
                  (session_of hist_df start_time end_time day) = Inr (f day)"
      by (simp add: f_def)
  qed
  then have "collect_trades hist_df pct sl_pct start_time end_time =
         Inr (concat (map f (group_keys (sort_index hist_df))))"
    unfolding collect_trades_def by (rule for_each_day_concat)
  with f show ?thesis by blast
qed

lemma collect_trades2_concat:
  "\<exists>f. (\<forall>day. day_trades2 pct (normalize_sl pct sl_pct) day
                  (session_of hist_df start_time end_time day) = Inr (f day)) \<and>
       collect_trades2 hist_df pct sl_pct start_time end_time =
         Inr (concat (map f (group_keys (sort_index hist_df))))"
proof -
  define f where "f = (\<lambda>day. projr (day_trades2 pct (normalize_sl pct sl_pct) day
                  (session_of hist_df start_time end_time day)))"
  have f: "\<And>day. day_trades2 pct (normalize_sl pct sl_pct) day
                  (session_of hist_df start_time end_time day) = Inr (f day)"
  proof -
    fix day
    obtain ts where "day_trades2 pct (normalize_sl pct sl_pct) day
                  (session_of hist_df start_time end_time day) = Inr ts"
      using day_trades2_total by blast
    then show "day_trades2 pct (normalize_sl pct sl_pct) day
                  (session_of hist_df start_time end_time day) = Inr (f day)"
      by (simp add: f_def)
  qed
  then have "collect_trades2 hist_df pct sl_pct start_time end_time =
         Inr (concat (map f (group_keys (sort_index hist_df))))"
    unfolding collect_trades2_def by (rule for_each_day_concat)
  with f show ?thesis by blast
qed

lemma collect_trades_total:
  "\<exists>trades. collect_trades hist_df pct sl_pct start_time end_time = Inr trades"
  using collect_trades_concat by blast

lemma collect_trades2_total:
  "\<exists>trades. collect_trades2 hist_df pct sl_pct start_time end_time = Inr trades"
  using collect_trades2_concat by blast

lemma day_trades_Date:
  assumes "day_trades pct sl_pct day (session_of hist_df start_time end_time day') = Inr ts"
    and "t \<in> set ts"
  shows "Date t = day"
proof -
  obtain ts2 where ts2: "day_trades2 pct sl_pct day (session_of hist_df start_time end_time day')
      = Inr ts2"
    using day_trades2_total by blast
  from day_trades_subset[OF assms(1) ts2] assms(2) have "t \<in> set ts2" by blast
  from day_trades2_member(1)[OF sorted_session ts2 this] show ?thesis .
qed

lemma day_trades2_Date:
  assumes "day_trades2 pct sl_pct day (session_of hist_df start_time end_time day') = Inr ts"
    and "t \<in> set ts"
  shows "Date t = day"
  using day_trades2_member(1)[OF sorted_session assms] .

text \<open>The rows of one date in the list of all trades are the rows that the body
  of the loop appended for that date.\<close>

lemma trades_of_day:
  assumes "collect_trades hist_df pct sl_pct start_time end_time = Inr trades"
  shows "day_trades pct (normalize_sl pct sl_pct) day (session_of hist_df start_time end_time day)
           = Inr (filter (\<lambda>t. Date t = day) trades)"
proof -
  from collect_trades_concat[of pct sl_pct hist_df start_time end_time]
  obtain f where f: "\<And>d. day_trades pct (normalize_sl pct sl_pct) d
                  (session_of hist_df start_time end_time d) = Inr (f d)"
    and c: "collect_trades hist_df pct sl_pct start_time end_time =
         Inr (concat (map f (group_keys (sort_index hist_df))))"
    by blast
  from c assms have tr: "trades = concat (map f (group_keys (sort_index hist_df)))" by simp
  have key: "\<And>d x. x \<in> set (f d) \<Longrightarrow> Date x = d"
    using day_trades_Date[OF f] by blast
  have "filter (\<lambda>t. Date t = day) trades =
      (if day \<in> set (group_keys (sort_index hist_df)) then f day else [])"
    unfolding tr using group_keys_strict[of "sort_index hist_df"] key
    by (intro filter_concat_map_key) (auto simp: strict_sorted_iff)
  moreover have "day \<notin> set (group_keys (sort_index hist_df)) \<Longrightarrow> f day = []"
    using f[of day] by (simp add: session_empty_outside day_trades_def)
  ultimately have "filter (\<lambda>t. Date t = day) trades = f day" by simp
  with f[of day] show ?thesis by simp
qed

lemma trades2_of_day:
  assumes "collect_trades2 hist_df pct sl_pct start_time end_time = Inr trades"
  shows "day_trades2 pct (normalize_sl pct sl_pct) day (session_of hist_df start_time end_time day)
           = Inr (filter (\<lambda>t. Date t = day) trades)"
proof -
  from collect_trades2_concat[of pct sl_pct hist_df start_time end_time]
  obtain f where f: "\<And>d. day_trades2 pct (normalize_sl pct sl_pct) d
                  (session_of hist_df start_time end_time d) = Inr (f d)"
    and c: "collect_trades2 hist_df pct sl_pct start_time end_time =
         Inr (concat (map f (group_keys (sort_index hist_df))))"
    by blast
  from c assms have tr: "trades = concat (map f (group_keys (sort_index hist_df)))" by simp
  have key: "\<And>d x. x \<in> set (f d) \<Longrightarrow> Date x = d"
    using day_trades2_Date[OF f] by blast
  have "filter (\<lambda>t. Date t = day) trades =
      (if day \<in> set (group_keys (sort_index hist_df)) then f day else [])"
    unfolding tr using group_keys_strict[of "sort_index hist_df"] key
    by (intro filter_concat_map_key) (auto simp: strict_sorted_iff)
  moreover have "day \<notin> set (group_keys (sort_index hist_df)) \<Longrightarrow> f day = []"
    using f[of day] by (simp add: session_empty_outside day_trades2_def)
  ultimately have "filter (\<lambda>t. Date t = day) trades = f day" by simp
  with f[of day] show ?thesis by simp
qed

text \<open>Every row of either list of trades is a row of its date in the second
  variant's body, for which the lemmas on the trades of one day are stated.\<close>

lemma trade_of_either:
  assumes "collect_trades hist_df pct sl_pct start_time end_time = Inr trades \<or>
           collect_trades2 hist_df pct sl_pct start_time end_time = Inr trades"
    and "tr \<in> set trades"
  shows "\<exists>ts. day_trades2 pct (normalize_sl pct sl_pct) (Date tr)
                 (session_of hist_df start_time end_time (Date tr)) = Inr ts \<and> tr \<in> set ts"
proof -
  let ?s = "session_of hist_df start_time end_time (Date tr)"
  let ?sl = "normalize_sl pct sl_pct"
  have m: "tr \<in> set (filter (\<lambda>t. Date t = Date tr) trades)" using assms(2) by simp
  from assms(1) show ?thesis
  proof
    assume "collect_trades hist_df pct sl_pct start_time end_time = Inr trades"
    from trades_of_day[OF this, of "Date tr"]
    have d1: "day_trades pct ?sl (Date tr) ?s = Inr (filter (\<lambda>t. Date t = Date tr) trades)" .
    obtain ts2 where ts2: "day_trades2 pct ?sl (Date tr) ?s = Inr ts2"
      using day_trades2_total by blast
    from day_trades_subset[OF d1 ts2] m have "tr \<in> set ts2" by blast
    with ts2 show ?thesis by blast
  next
    assume "collect_trades2 hist_df pct sl_pct start_time end_time = Inr trades"
    from trades2_of_day[OF this, of "Date tr"] m show ?thesis by blast
  qed
qed

lemma collect_trades2_sorted:
  assumes "collect_trades2 hist_df pct sl_pct start_time end_time = Inr trades"
  shows "sorted (map (\<lambda>t. (Date t, EntryTime t)) trades)"
proof -
  from collect_trades2_concat[of pct sl_pct hist_df start_time end_time]
  obtain f where f: "\<And>d. day_trades2 pct (normalize_sl pct sl_pct) d
                  (session_of hist_df start_time end_time d) = Inr (f d)"
    and c: "collect_trades2 hist_df pct sl_pct start_time end_time =
         Inr (concat (map f (group_keys (sort_index hist_df))))"
    by blast
  from c assms have tr: "trades = concat (map f (group_keys (sort_index hist_df)))" by simp
  show ?thesis
    unfolding tr
  proof (rule sorted_concat_map[OF group_keys_strict])
    fix d
    show "sorted (map (\<lambda>t. (Date t, EntryTime t)) (f d))"
      by (rule day_trades2_sorted[OF sorted_session f])
  next
    fix d d' :: int and x y
    assume "d < d'" and "x \<in> set (f d)" and "y \<in> set (f d')"
    then show "(Date x, EntryTime x) \<le> (Date y, EntryTime y)"
      using day_trades2_Date[OF f] by (simp add: less_eq_prod_def)
  qed
qed

lemma collect_trades_sorted_pair:
  assumes "collect_trades hist_df pct sl_pct start_time end_time = Inr trades"
  shows "sorted (map (\<lambda>t. (Date t, EntryTime t)) trades)"
proof -
  from collect_trades_concat[of pct sl_pct hist_df start_time end_time]
  obtain f where f: "\<And>d. day_trades pct (normalize_sl pct sl_pct) d
                  (session_of hist_df start_time end_time d) = Inr (f d)"
    and c: "collect_trades hist_df pct sl_pct start_time end_time =
         Inr (concat (map f (group_keys (sort_index hist_df))))"
    by blast
  from c assms have tr: "trades = concat (map f (group_keys (sort_index hist_df)))" by simp
  show ?thesis
    unfolding tr
  proof (rule sorted_concat_map[OF group_keys_strict])
    fix d
    show "sorted (map (\<lambda>t. (Date t, EntryTime t)) (f d))"
      using length_day_trades[OF f[of d]] by (cases "f d") auto
  next
    fix d d' :: int and x y
    assume "d < d'" and "x \<in> set (f d)" and "y \<in> set (f d')"
    then show "(Date x, EntryTime x) \<le> (Date y, EntryTime y)"
      using day_trades_Date[OF f] by (simp add: less_eq_prod_def)
  qed
qed

lemma sorted_fst_of_pair:
  assumes "sorted (map (\<lambda>t. (Date t, EntryTime t)) xs)"
  shows "sorted (map Date xs)"
proof -
  have "sorted_wrt (\<lambda>a b. (Date a, EntryTime a) \<le> (Date b, EntryTime b)) xs"
    using assms by (simp add: sorted_map)
  then have "sorted_wrt (\<lambda>a b. Date a \<le> Date b) xs"
    by (rule sorted_wrt_mono_rel[rotated]) (auto simp: less_eq_prod_def)
  then show ?thesis by (simp add: sorted_map)
qed

subsection \<open>Drawdown\<close>

lemma fold_min_le: "fold min xs (x::real) \<le> x"
proof (induction xs arbitrary: x)
  case Nil
  then show ?case by simp
next
  case (Cons y ys)
  have "fold min ys (min y x) \<le> min y x" by (rule Cons.IH)
  then show ?case by simp
qed

lemma fold_min_const: "\<forall>y \<in> set xs. y = x \<Longrightarrow> fold min xs (x::real) = x"
  by (induction xs) auto

lemma cummax_from_sorted: "sorted (m # xs) \<Longrightarrow> cummax_from m xs = xs"
proof (induction xs arbitrary: m)
  case Nil
  then show ?case by simp
next
  case (Cons x xs)
  then have "max m x = x" by simp
  moreover have "cummax_from x xs = xs" using Cons by simp
  ultimately show ?case by simp
qed

lemma cummax_sorted: "sorted xs \<Longrightarrow> cummax xs = xs"
  by (cases xs) (simp_all add: cummax_from_sorted)

text \<open>The drawdown series of a curve, and its minimum.\<close>

lemma drawdown_min_le_0: "series_min (map2 fsub curve (cummax curve)) \<le> 0"
proof (cases curve)
  case Nil
  then show ?thesis by simp
next
  case (Cons x xs)
  have "fold min (map2 fsub xs (cummax_from x xs)) (fsub x x) \<le> fsub x x" by (rule fold_min_le)
  then show ?thesis by (simp add: Cons fsub_self)
qed

lemma drawdown_min_sorted:
  assumes "sorted curve" shows "series_min (map2 fsub curve (cummax curve)) = 0"
proof (cases curve)
  case Nil
  then show ?thesis by simp
next
  case (Cons x xs)
  have "\<forall>y \<in> set (map2 fsub xs xs). y = 0" by (auto simp: in_set_zip fsub_self)
  then have "fold min (map2 fsub xs xs) 0 = 0" by (rule fold_min_const)
  then show ?thesis using assms cummax_sorted[OF assms] by (simp add: Cons fsub_self)
qed

lemma compute_metrics_total: "trades_df \<noteq> [] \<Longrightarrow> \<exists>m. compute_metrics trades_df = Inr m"
  by (simp add: compute_metrics_def column_of_def Let_def)

text \<open>What the script would raise on the table built from no trades, were it not
  returned first.\<close>

lemma compute_metrics_empty: "compute_metrics [] = Inl KeyError"
  by (simp add: compute_metrics_def column_of_def)

lemma sort_values_empty: "sort_values by [] = Inl KeyError"
  by (simp add: sort_values_def)

lemma max_drawdown_le_0: "compute_metrics trades_df = Inr m \<Longrightarrow> Max_Drawdown m \<le> 0"
  by (auto simp: compute_metrics_def column_of_def Let_def drawdown_min_le_0 split: if_splits)

lemma max_drawdown_sorted:
  "compute_metrics trades_df = Inr m \<Longrightarrow> sorted (cumsum (map PnL trades_df)) \<Longrightarrow>
     Max_Drawdown m = 0"
  by (auto simp: compute_metrics_def column_of_def Let_def drawdown_min_sorted split: if_splits)

subsection \<open>The returned pair\<close>

text \<open>
  Both entry points return, and the table they return is the list of trades in
  the order in which the loop appended them: the sort finds it sorted.
\<close>

lemma backtest_table:
  assumes "collect_trades hist_df pct sl_pct start_time end_time = Inr trades"
  shows "\<exists>m. backtest_intraday_open_breakout hist_df pct sl_pct start_time end_time =
               Inr (trades, m) \<and>
             (if trades = [] then m = zero_metrics else compute_metrics trades = Inr m)"
proof (cases "trades = []")
  case True
  with assms show ?thesis by (simp add: backtest_intraday_open_breakout_def)
next
  case False
  have "sort_key Date trades = trades"
    by (rule sort_key_id_if_sorted[OF sorted_fst_of_pair[OF collect_trades_sorted_pair[OF assms]]])
  then have s: "sort_values Date trades = Inr trades" using False by (simp add: sort_values_def)
  from compute_metrics_total[OF False] obtain m where m: "compute_metrics trades = Inr m" ..
  with assms s False show ?thesis by (simp add: backtest_intraday_open_breakout_def)
qed

lemma backtest2_table:
  assumes "collect_trades2 hist_df pct sl_pct start_time end_time = Inr trades"
  shows "\<exists>m. backtest_intraday_open_breakout2 hist_df pct sl_pct start_time end_time =
               Inr (trades, m) \<and>
             (if trades = [] then m = zero_metrics else compute_metrics trades = Inr m)"
proof (cases "trades = []")
  case True
  with assms show ?thesis by (simp add: backtest_intraday_open_breakout2_def)
next
  case False
  have "sort_key (\<lambda>t. (Date t, EntryTime t)) trades = trades"
    by (rule sort_key_id_if_sorted[OF collect_trades2_sorted[OF assms]])
  then have s: "sort_values (\<lambda>t. (Date t, EntryTime t)) trades = Inr trades"
    using False by (simp add: sort_values_def)
  from compute_metrics_total[OF False] obtain m where m: "compute_metrics trades = Inr m" ..
  with assms s False show ?thesis by (simp add: backtest_intraday_open_breakout2_def)
qed

lemma backtest_returns:
  "\<exists>tbl m. backtest_intraday_open_breakout hist_df pct sl_pct start_time end_time = Inr (tbl, m) \<and>
     collect_trades hist_df pct sl_pct start_time end_time = Inr tbl \<and>
     (if tbl = [] then m = zero_metrics else compute_metrics tbl = Inr m)"
proof -
  obtain trades where t: "collect_trades hist_df pct sl_pct start_time end_time = Inr trades"
    using collect_trades_total by blast
  from backtest_table[OF t] t show ?thesis by blast
qed

lemma backtest2_returns:
  "\<exists>tbl m. backtest_intraday_open_breakout2 hist_df pct sl_pct start_time end_time = Inr (tbl, m) \<and>
     collect_trades2 hist_df pct sl_pct start_time end_time = Inr tbl \<and>
     (if tbl = [] then m = zero_metrics else compute_metrics tbl = Inr m)"
proof -
  obtain trades where t: "collect_trades2 hist_df pct sl_pct start_time end_time = Inr trades"
    using collect_trades2_total by blast
  from backtest2_table[OF t] t show ?thesis by blast
qed

subsection \<open>The worked example, evaluated\<close>

lemmas float_eval = round_double_def exponent_def exp_up.simps exp_down.simps pow2_def
  round_half_even_def fadd_def fsub_def fmul_def fdiv_def

lemmas eval_defs = backtest_intraday_open_breakout_def backtest_intraday_open_breakout2_def
  collect_trades_def collect_trades2_def session_of_def between_time_def get_group_def
  group_keys_def sort_index_def date_of_def time_micros_def ns_per_day_def in_window_def
  day_trades_def day_trades2_def second_trade_def trade_exit_def rows_after_def loc_from_def
  pnl_of_def normalize_sl_def end_of_day_def iloc_first_def iloc_last_def sort_values_def
  compute_metrics_def column_of_def example_pct_def example_sl_pct_def Let_def

lemma example_session:
  "session_of example_candles 0 end_of_day 0 = example_candles"
  by (simp add: example_candles_def eval_defs)

lemma example_collect:
  "collect_trades example_candles example_pct (Some example_sl_pct) 0 end_of_day =
     Inr [\<lparr>Date = 0, Type = LONG, Entry = 101, Exit = 883963368266793 / 8796093022208,
           PnL = - (4442026976215 / 8796093022208), StopHit = True,
           EntryTime = 300000000000, ExitTime = 600000000000\<rparr>]"
  by (simp add: example_candles_def eval_defs float_eval)

lemma example_collect2:
  "collect_trades2 example_candles example_pct (Some example_sl_pct) 0 end_of_day =
     Inr [\<lparr>Date = 0, Type = LONG, Entry = 101, Exit = 883963368266793 / 8796093022208,
           PnL = - (4442026976215 / 8796093022208), StopHit = True,
           EntryTime = 300000000000, ExitTime = 600000000000\<rparr>,
          \<lparr>Date = 0, Type = SHORT, Entry = 883963368266793 / 8796093022208, Exit = 100.5,
           PnL = - (43980465111 / 8796093022208), StopHit = False,
           EntryTime = 600000000000, ExitTime = 600000000000\<rparr>]"
  by (simp add: example_candles_def eval_defs float_eval)

lemma example_run:
  "backtest_intraday_open_breakout example_candles example_pct (Some example_sl_pct) 0 end_of_day =
     Inr ([\<lparr>Date = 0, Type = LONG, Entry = 101, Exit = 883963368266793 / 8796093022208,
            PnL = - (4442026976215 / 8796093022208), StopHit = True,
            EntryTime = 300000000000, ExitTime = 600000000000\<rparr>],
          \<lparr>Total_PnL = - (4442026976215 / 8796093022208), Max_Drawdown = 0, Total_Trades = 1,
            Win_Rate_pct = 0, Avg_PnL = - (4442026976215 / 8796093022208)\<rparr>)"
  by (simp add: backtest_intraday_open_breakout_def example_collect sort_values_def
        compute_metrics_def column_of_def Let_def float_eval)

lemma example_run2:
  "backtest_intraday_open_breakout2 example_candles example_pct (Some example_sl_pct) 0 end_of_day =
     Inr ([\<lparr>Date = 0, Type = LONG, Entry = 101, Exit = 883963368266793 / 8796093022208,
            PnL = - (4442026976215 / 8796093022208), StopHit = True,
            EntryTime = 300000000000, ExitTime = 600000000000\<rparr>,
           \<lparr>Date = 0, Type = SHORT, Entry = 883963368266793 / 8796093022208, Exit = 100.5,
            PnL = - (43980465111 / 8796093022208), StopHit = False,
            EntryTime = 600000000000, ExitTime = 600000000000\<rparr>],
          \<lparr>Total_PnL = - (2243003720663 / 4398046511104),
            Max_Drawdown = - (43980465111 / 8796093022208), Total_Trades = 2,
            Win_Rate_pct = 0, Avg_PnL = - (2243003720663 / 8796093022208)\<rparr>)"
  by (simp add: backtest_intraday_open_breakout2_def example_collect2 sort_values_def
        compute_metrics_def column_of_def Let_def float_eval)

lemma example_short_run2:
  "backtest_intraday_open_breakout2 (take 2 example_candles) example_pct (Some example_sl_pct)
       0 end_of_day =
     Inr ([\<lparr>Date = 0, Type = LONG, Entry = 101, Exit = 101.25, PnL = 0.25, StopHit = False,
            EntryTime = 300000000000, ExitTime = 300000000000\<rparr>],
          \<lparr>Total_PnL = 0.25, Max_Drawdown = 0, Total_Trades = 1,
            Win_Rate_pct = 100, Avg_PnL = 0.25\<rparr>)"
  by (simp add: example_candles_def eval_defs float_eval)

lemma example_first_candle_no_trade:
  "collect_trades (take 1 example_candles) example_pct None 0 end_of_day = Inr []"
  "collect_trades2 (take 1 example_candles) example_pct None 0 end_of_day = Inr []"
  by (simp_all add: example_candles_def eval_defs float_eval)

lemma both_sides_session:
  "session_of both_sides_example 0 end_of_day 0 = both_sides_example"
  by (simp add: both_sides_example_def eval_defs)

lemma both_sides_run:
  "backtest_intraday_open_breakout both_sides_example example_pct None 0 end_of_day =
     Inr ([\<lparr>Date = 0, Type = LONG, Entry = 101, Exit = 99.5, PnL = - 1.5, StopHit = False,
            EntryTime = 300000000000, ExitTime = 300000000000\<rparr>],
          \<lparr>Total_PnL = - 1.5, Max_Drawdown = 0, Total_Trades = 1,
            Win_Rate_pct = 0, Avg_PnL = - 1.5\<rparr>)"
  by (simp add: both_sides_example_def eval_defs float_eval)

lemma both_sides_run2:
  "backtest_intraday_open_breakout2 both_sides_example example_pct None 0 end_of_day =
     Inr ([\<lparr>Date = 0, Type = LONG, Entry = 101, Exit = 99.5, PnL = - 1.5, StopHit = False,
            EntryTime = 300000000000, ExitTime = 300000000000\<rparr>],
          \<lparr>Total_PnL = - 1.5, Max_Drawdown = 0, Total_Trades = 1,
            Win_Rate_pct = 0, Avg_PnL = - 1.5\<rparr>)"
  by (simp add: both_sides_example_def eval_defs float_eval)

lemma example_triggers:
  "fmul 100 (fadd 1 example_pct) = 101" "fmul 100 (fsub 1 example_pct) = 99"
  "fmul 101 (fsub 1 example_sl_pct) = 883963368266793 / 8796093022208"
  "round_double 100.495 = 883963368266793 / 8796093022208"
  "fsub (883963368266793 / 8796093022208) 101 = - (4442026976215 / 8796093022208)"
  "round_double 100.4 = 3532510957718733 / 35184372088832"
  by (simp_all add: example_pct_def example_sl_pct_def float_eval)

subsection \<open>Both runs\<close>

lemma both_return:
  "\<exists>tbl m tbl2 m2.
     backtest_intraday_open_breakout hist_df pct sl_pct start_time end_time = Inr (tbl, m) \<and>
     backtest_intraday_open_breakout2 hist_df pct sl_pct start_time end_time = Inr (tbl2, m2) \<and>
     collect_trades hist_df pct sl_pct start_time end_time = Inr tbl \<and>
     collect_trades2 hist_df pct sl_pct start_time end_time = Inr tbl2 \<and>
     (if tbl = [] then m = zero_metrics else compute_metrics tbl = Inr m) \<and>
     (if tbl2 = [] then m2 = zero_metrics else compute_metrics tbl2 = Inr m2)"
  using backtest_returns[of hist_df pct sl_pct start_time end_time]
    backtest2_returns[of hist_df pct sl_pct start_time end_time]
  by blast

subsection \<open>Empty input, entry times and session membership\<close>

lemma collect_trades_Nil: "collect_trades [] pct sl_pct start_time end_time = Inr []"
  by (simp add: collect_trades_def group_keys_def sort_index_def)

lemma collect_trades2_Nil: "collect_trades2 [] pct sl_pct start_time end_time = Inr []"
  by (simp add: collect_trades2_def group_keys_def sort_index_def)

lemma date_of_mono: "a \<le> b \<Longrightarrow> date_of a \<le> date_of b"
  by (simp add: date_of_def ns_per_day_def zdiv_mono1)

lemma sorted_by_entry_time:
  assumes "sorted (map (\<lambda>t. (Date t, EntryTime t)) xs)"
    and "\<forall>t \<in> set xs. Date t = date_of (EntryTime t)"
  shows "sorted (map EntryTime xs)"
proof -
  have "sorted_wrt (\<lambda>a b. (Date a, EntryTime a) \<le> (Date b, EntryTime b)) xs"
    using assms(1) by (simp add: sorted_map)
  then have "sorted_wrt (\<lambda>a b. EntryTime a \<le> EntryTime b) xs"
  proof (rule sorted_wrt_mono_rel[rotated])
    fix a b
    assume a: "a \<in> set xs" and b: "b \<in> set xs"
      and le: "(Date a, EntryTime a) \<le> (Date b, EntryTime b)"
    show "EntryTime a \<le> EntryTime b"
    proof (rule ccontr)
      assume "\<not> EntryTime a \<le> EntryTime b"
      then have gt: "EntryTime b \<le> EntryTime a" and ne: "\<not> EntryTime a \<le> EntryTime b" by auto
      from date_of_mono[OF gt] a b assms(2) have "Date b \<le> Date a" by simp
      with le ne show False by (auto simp: less_eq_prod_def)
    qed
  qed
  then show ?thesis by (simp add: sorted_map)
qed

lemma session_time:
  assumes "c \<in> set (session_of hist_df start_time end_time day)"
  shows "date_of (time c) = day" and "in_window start_time end_time (time_micros (time c))"
  using assms by (simp_all add: session_member)

text \<open>What holds of every row of either list of trades.\<close>

lemma trade_props:
  assumes "collect_trades hist_df pct sl_pct start_time end_time = Inr trades \<or>
           collect_trades2 hist_df pct sl_pct start_time end_time = Inr trades"
    and "tr \<in> set trades"
  shows "StopHit tr \<Longrightarrow>
           Exit tr = (if Type tr = LONG then fmul (Entry tr) (fsub 1 (normalize_sl pct sl_pct))
                      else fmul (Entry tr) (fadd 1 (normalize_sl pct sl_pct)))"
    and "\<not> StopHit tr \<Longrightarrow>
           Exit tr = close (last (session_of hist_df start_time end_time (Date tr))) \<and>
           ExitTime tr = time (last (session_of hist_df start_time end_time (Date tr)))"
    and "PnL tr = (if Type tr = LONG then fsub (Exit tr) (Entry tr) else fsub (Entry tr) (Exit tr))"
    and "EntryTime tr \<le> ExitTime tr"
    and "EntryTime tr \<in> time ` set (session_of hist_df start_time end_time (Date tr))"
    and "ExitTime tr \<in> time ` set (session_of hist_df start_time end_time (Date tr))"
    and "date_of (EntryTime tr) = Date tr" and "date_of (ExitTime tr) = Date tr"
    and "in_window start_time end_time (time_micros (EntryTime tr))"
    and "in_window start_time end_time (time_micros (ExitTime tr))"
    and "EntryTime tr = time (last (session_of hist_df start_time end_time (Date tr))) \<Longrightarrow>
           ExitTime tr = EntryTime tr"
proof -
  let ?s = "session_of hist_df start_time end_time (Date tr)"
  from trade_of_either[OF assms] obtain ts where
    ts: "day_trades2 pct (normalize_sl pct sl_pct) (Date tr) ?s = Inr ts" and m: "tr \<in> set ts"
    by blast
  note p = day_trades2_member[OF sorted_session ts m]
  from p(6) obtain c1 where c1: "c1 \<in> set ?s" "time c1 = EntryTime tr" by blast
  from p(7) obtain c2 where c2: "c2 \<in> set ?s" "time c2 = ExitTime tr" by blast
  show "StopHit tr \<Longrightarrow>
           Exit tr = (if Type tr = LONG then fmul (Entry tr) (fsub 1 (normalize_sl pct sl_pct))
                      else fmul (Entry tr) (fadd 1 (normalize_sl pct sl_pct)))"
    by (rule p(2))
  show "\<not> StopHit tr \<Longrightarrow> Exit tr = close (last ?s) \<and> ExitTime tr = time (last ?s)"
    by (rule p(3))
  show "PnL tr = (if Type tr = LONG then fsub (Exit tr) (Entry tr) else fsub (Entry tr) (Exit tr))"
    by (rule p(4))
  show "EntryTime tr \<le> ExitTime tr" by (rule p(5))
  show "EntryTime tr \<in> time ` set ?s" using c1 by force
  show "ExitTime tr \<in> time ` set ?s" using c2 by force
  show "date_of (EntryTime tr) = Date tr" using session_time(1)[OF c1(1)] c1(2) by simp
  show "date_of (ExitTime tr) = Date tr" using session_time(1)[OF c2(1)] c2(2) by simp
  show "in_window start_time end_time (time_micros (EntryTime tr))"
    using session_time(2)[OF c1(1)] c1(2) by simp
  show "in_window start_time end_time (time_micros (ExitTime tr))"
    using session_time(2)[OF c2(1)] c2(2) by simp
  have "ExitTime tr \<le> time (last ?s)"
    using time_le_last[OF sorted_session c2(1)] c2(2) by simp
  with p(5) show "EntryTime tr = time (last ?s) \<Longrightarrow> ExitTime tr = EntryTime tr" by simp
qed

subsection \<open>Days without a trade\<close>

lemma day_trades_Nil_iff:
  "day_trades pct sl_pct day s = Inr [] \<longleftrightarrow>
     (\<forall>c \<in> set s. high c < fmul (open (hd s)) (fadd 1 pct) \<and>
                    fmul (open (hd s)) (fsub 1 pct) < low c)"
proof (cases "s = []")
  case True
  then show ?thesis by (simp add: day_trades_def)
next
  case False
  let ?lt = "fmul (open (hd s)) (fadd 1 pct)"
  let ?st = "fmul (open (hd s)) (fsub 1 pct)"
  show ?thesis
  proof (cases "first_trigger ?lt ?st sl_pct s")
    case None
    then have "day_trades pct sl_pct day s = Inr []"
      by (simp add: day_trades_def iloc_first_Cons[OF False] Let_def False)
    moreover from None have "\<forall>c \<in> set s. high c < ?lt \<and> ?st < low c"
      by (simp add: first_trigger_None)
    ultimately show ?thesis by simp
  next
    case (Some a)
    then have "day_trades pct sl_pct day s \<noteq> Inr []"
      by (auto simp: day_trades_def iloc_first_Cons[OF False] Let_def False
            split: prod.splits sum.splits)
    moreover from Some have "\<not> (\<forall>c \<in> set s. high c < ?lt \<and> ?st < low c)"
      using first_trigger_None[of ?lt ?st sl_pct s] by simp
    ultimately show ?thesis by simp
  qed
qed

lemma day_trades2_Nil_iff:
  "day_trades2 pct sl_pct day s = Inr [] \<longleftrightarrow> day_trades pct sl_pct day s = Inr []"
proof
  assume "day_trades2 pct sl_pct day s = Inr []"
  from day_trades2_cases[OF this] show "day_trades pct sl_pct day s = Inr []" by simp
next
  assume "day_trades pct sl_pct day s = Inr []"
  then show "day_trades2 pct sl_pct day s = Inr []" by (simp add: day_trades2_via_day_trades)
qed

text \<open>The loop appends no trade exactly when no candle of any session reaches a
  trigger level of its session.\<close>

lemma collect_trades_Nil_iff:
  "collect_trades hist_df pct sl_pct start_time end_time = Inr [] \<longleftrightarrow>
     (\<forall>day. \<forall>c \<in> set (session_of hist_df start_time end_time day).
        high c < fmul (open (hd (session_of hist_df start_time end_time day))) (fadd 1 pct) \<and>
        fmul (open (hd (session_of hist_df start_time end_time day))) (fsub 1 pct) < low c)"
  (is "?L \<longleftrightarrow> ?R")
proof
  assume ?L
  from trades_of_day[OF this]
  have "\<And>day. day_trades pct (normalize_sl pct sl_pct) day
                 (session_of hist_df start_time end_time day) = Inr []"
    by simp
  then show ?R by (simp only: day_trades_Nil_iff) blast
next
  assume R: ?R
  obtain trades where t: "collect_trades hist_df pct sl_pct start_time end_time = Inr trades"
    using collect_trades_total by blast
  have "trades = []"
  proof (rule ccontr)
    assume "trades \<noteq> []"
    then obtain tr where tr: "tr \<in> set trades" by (cases trades) auto
    from R have "day_trades pct (normalize_sl pct sl_pct) (Date tr)
                 (session_of hist_df start_time end_time (Date tr)) = Inr []"
      by (simp only: day_trades_Nil_iff) blast
    with trades_of_day[OF t, of "Date tr"] have "filter (\<lambda>t. Date t = Date tr) trades = []"
      by simp
    with tr show False by (auto simp: filter_empty_conv)
  qed
  with t show ?L by simp
qed

lemma collect_trades2_Nil_iff:
  "collect_trades2 hist_df pct sl_pct start_time end_time = Inr [] \<longleftrightarrow>
     (\<forall>day. \<forall>c \<in> set (session_of hist_df start_time end_time day).
        high c < fmul (open (hd (session_of hist_df start_time end_time day))) (fadd 1 pct) \<and>
        fmul (open (hd (session_of hist_df start_time end_time day))) (fsub 1 pct) < low c)"
  (is "?L \<longleftrightarrow> ?R")
proof
  assume ?L
  from trades2_of_day[OF this]
  have "\<And>day. day_trades2 pct (normalize_sl pct sl_pct) day
                 (session_of hist_df start_time end_time day) = Inr []"
    by simp
  then show ?R by (simp only: day_trades2_Nil_iff day_trades_Nil_iff) blast
next
  assume R: ?R
  obtain trades where t: "collect_trades2 hist_df pct sl_pct start_time end_time = Inr trades"
    using collect_trades2_total by blast
  have "trades = []"
  proof (rule ccontr)
    assume "trades \<noteq> []"
    then obtain tr where tr: "tr \<in> set trades" by (cases trades) auto
    from R have "day_trades2 pct (normalize_sl pct sl_pct) (Date tr)
                 (session_of hist_df start_time end_time (Date tr)) = Inr []"
      by (simp only: day_trades2_Nil_iff day_trades_Nil_iff) blast
    with trades2_of_day[OF t, of "Date tr"] have "filter (\<lambda>t. Date t = Date tr) trades = []"
      by simp
    with tr show False by (auto simp: filter_empty_conv)
  qed
  with t show ?L by simp
qed

subsection \<open>A candle that reaches the long trigger first\<close>

lemma first_trigger_append:
  assumes "\<forall>x \<in> set pre. high x < lt \<and> st < low x" and "lt \<le> high c"
  shows "first_trigger lt st sl_pct (pre @ c # post) =
           Some (lt, time c, LONG, fmul lt (fsub 1 sl_pct))"
  using assms by (induction pre) auto

lemma day_trades_long:
  assumes s: "s = pre @ c # post"
    and pre: "\<forall>x \<in> set pre. high x < fmul (open (hd s)) (fadd 1 pct) \<and>
                              fmul (open (hd s)) (fsub 1 pct) < low x"
    and c: "fmul (open (hd s)) (fadd 1 pct) \<le> high c"
  shows "\<exists>t. day_trades pct sl_pct day s = Inr [t] \<and> Type t = LONG \<and>
           Entry t = fmul (open (hd s)) (fadd 1 pct) \<and> EntryTime t = time c"
proof -
  let ?lt = "fmul (open (hd s)) (fadd 1 pct)"
  let ?st = "fmul (open (hd s)) (fsub 1 pct)"
  have ne: "s \<noteq> []" using s by simp
  have ft: "first_trigger ?lt ?st sl_pct s = Some (?lt, time c, LONG, fmul ?lt (fsub 1 sl_pct))"
    using first_trigger_append[OF pre c] s by simp
  from trade_exit_total[OF ne, of LONG "fmul ?lt (fsub 1 sl_pct)" "rows_after (time c) s"]
  obtain r where "trade_exit LONG (fmul ?lt (fsub 1 sl_pct)) (rows_after (time c) s) s = Inr r"
    by blast
  with ft show ?thesis
    by (simp add: day_trades_def iloc_first_Cons[OF ne] Let_def ne split: prod.splits)
qed

subsection \<open>Midnight bounds of the date filter\<close>

lemma midnight_le_iff: "midnight d \<le> ts \<longleftrightarrow> d \<le> date_of ts"
  unfolding midnight_def date_of_def ns_per_day_def by linarith

lemma le_midnight_iff: "ts \<le> midnight d \<longleftrightarrow> date_of ts < d \<or> ts = midnight d"
  unfolding midnight_def date_of_def ns_per_day_def by auto

text \<open>The rows that \<^verbatim>\<open>filter_by_date\<close> keeps, by their dates: of the end date only
  a row at midnight.\<close>

lemma filter_by_date_rows:
  "filter_by_date df start_date end_date =
     filter (\<lambda>c. start_date \<le> date_of (time c) \<and>
                 (date_of (time c) < end_date \<or> time c = midnight end_date)) df"
  by (simp add: filter_by_date_def midnight_le_iff le_midnight_iff)

subsection \<open>Distinct dates in the single-trade table\<close>

lemma distinct_map_if_filter_le_1:
  assumes "\<And>k. length (filter (\<lambda>x. f x = k) xs) \<le> 1"
  shows "distinct (map f xs)"
  using assms
proof (induction xs)
  case Nil
  then show ?case by simp
next
  case (Cons x xs)
  have tail: "\<And>k. length (filter (\<lambda>y. f y = k) xs) \<le> 1"
  proof -
    fix k
    have "length (filter (\<lambda>y. f y = k) xs) \<le> length (filter (\<lambda>y. f y = k) (x # xs))" by simp
    also have "\<dots> \<le> 1" by (rule Cons.prems)
    finally show "length (filter (\<lambda>y. f y = k) xs) \<le> 1" .
  qed
  have "f x \<notin> f ` set xs"
  proof
    assume "f x \<in> f ` set xs"
    then have "filter (\<lambda>y. f y = f x) xs \<noteq> []" by (auto simp: filter_empty_conv)
    then have "0 < length (filter (\<lambda>y. f y = f x) xs)" by simp
    moreover have "length (filter (\<lambda>y. f y = f x) (x # xs)) \<le> 1" by (rule Cons.prems)
    ultimately show False by simp
  qed
  with Cons.IH[OF tail] show ?case by simp
qed

text \<open>
  The single-trade variant sorts its table by \<open>Date\<close> alone, with the sort pandas
  uses by default, which may reorder rows of equal key. No two of its rows have
  the same \<open>Date\<close>, so the sorted table is the same for every sort.
\<close>

lemma collect_trades_distinct_dates:
  assumes "collect_trades hist_df pct sl_pct start_time end_time = Inr trades"
  shows "distinct (map Date trades)"
proof (rule distinct_map_if_filter_le_1)
  fix k
  show "length (filter (\<lambda>t. Date t = k) trades) \<le> 1"
    by (rule length_day_trades[OF trades_of_day[OF assms]])
qed

section \<open>The claims\<close>

text \<open>
  Claim C1. Both variants return a table, and for every trade in either table: if
  \<open>StopHit\<close> is true, its exit price is the stop level of its direction, computed
  as the script computes it, \<open>Entry * (1 - sl_pct)\<close> for a LONG and
  \<open>Entry * (1 + sl_pct)\<close> for a SHORT, where \<open>sl_pct\<close> is \<open>pct\<close> when none was given;
  if \<open>StopHit\<close> is false, its exit price is the close of the last candle of its
  session and its exit time is the timestamp of that candle.
\<close>

theorem exit_price_by_stop_flag:
  "\<exists>tbl m tbl2 m2.
     backtest_intraday_open_breakout hist_df pct sl_pct start_time end_time = Inr (tbl, m) \<and>
     backtest_intraday_open_breakout2 hist_df pct sl_pct start_time end_time = Inr (tbl2, m2) \<and>
     (\<forall>tr \<in> set tbl \<union> set tbl2.
        (StopHit tr \<longrightarrow>
           Exit tr = (if Type tr = LONG then fmul (Entry tr) (fsub 1 (normalize_sl pct sl_pct))
                      else fmul (Entry tr) (fadd 1 (normalize_sl pct sl_pct)))) \<and>
        (\<not> StopHit tr \<longrightarrow>
           Exit tr = close (last (session_of hist_df start_time end_time (Date tr))) \<and>
           ExitTime tr = time (last (session_of hist_df start_time end_time (Date tr)))))"
proof -
  from both_return[of hist_df pct sl_pct start_time end_time]
  obtain tbl m tbl2 m2 where
    r: "backtest_intraday_open_breakout hist_df pct sl_pct start_time end_time = Inr (tbl, m)"
       "backtest_intraday_open_breakout2 hist_df pct sl_pct start_time end_time = Inr (tbl2, m2)"
    and c: "collect_trades hist_df pct sl_pct start_time end_time = Inr tbl"
       "collect_trades2 hist_df pct sl_pct start_time end_time = Inr tbl2"
    by blast
  have "\<forall>tr \<in> set tbl \<union> set tbl2.
        (StopHit tr \<longrightarrow>
           Exit tr = (if Type tr = LONG then fmul (Entry tr) (fsub 1 (normalize_sl pct sl_pct))
                      else fmul (Entry tr) (fadd 1 (normalize_sl pct sl_pct)))) \<and>
        (\<not> StopHit tr \<longrightarrow>
           Exit tr = close (last (session_of hist_df start_time end_time (Date tr))) \<and>
           ExitTime tr = time (last (session_of hist_df start_time end_time (Date tr))))"
  proof
    fix tr assume "tr \<in> set tbl \<union> set tbl2"
    then consider "tr \<in> set tbl" | "tr \<in> set tbl2" by blast
    then show "(StopHit tr \<longrightarrow>
           Exit tr = (if Type tr = LONG then fmul (Entry tr) (fsub 1 (normalize_sl pct sl_pct))
                      else fmul (Entry tr) (fadd 1 (normalize_sl pct sl_pct)))) \<and>
        (\<not> StopHit tr \<longrightarrow>
           Exit tr = close (last (session_of hist_df start_time end_time (Date tr))) \<and>
           ExitTime tr = time (last (session_of hist_df start_time end_time (Date tr))))"
    proof cases
      case 1
      from trade_props(1,2)[OF disjI1[OF c(1)] 1] show ?thesis by blast
    next
      case 2
      from trade_props(1,2)[OF disjI2[OF c(2)] 2] show ?thesis by blast
    qed
  qed
  with r show ?thesis by blast
qed

theorem exit_price_by_stop_flag_witness:
  "\<exists>m m2.
     backtest_intraday_open_breakout example_candles example_pct (Some example_sl_pct) 0 end_of_day =
       Inr ([\<lparr>Date = 0, Type = LONG, Entry = 101, Exit = 883963368266793 / 8796093022208,
              PnL = - (4442026976215 / 8796093022208), StopHit = True,
              EntryTime = 300000000000, ExitTime = 600000000000\<rparr>], m) \<and>
     backtest_intraday_open_breakout2 example_candles example_pct (Some example_sl_pct) 0 end_of_day =
       Inr ([\<lparr>Date = 0, Type = LONG, Entry = 101, Exit = 883963368266793 / 8796093022208,
              PnL = - (4442026976215 / 8796093022208), StopHit = True,
              EntryTime = 300000000000, ExitTime = 600000000000\<rparr>,
             \<lparr>Date = 0, Type = SHORT, Entry = 883963368266793 / 8796093022208, Exit = 100.5,
              PnL = - (43980465111 / 8796093022208), StopHit = False,
              EntryTime = 600000000000, ExitTime = 600000000000\<rparr>], m2) \<and>
     883963368266793 / 8796093022208 = fmul 101 (fsub 1 (normalize_sl example_pct (Some example_sl_pct))) \<and>
     (100.5 :: real) = close (last (session_of example_candles 0 end_of_day 0)) \<and>
     (600000000000 :: int) = time (last (session_of example_candles 0 end_of_day 0))"
  using exit_price_by_stop_flag[of example_candles example_pct "Some example_sl_pct" 0 end_of_day]
  by (simp add: example_run example_run2)

text \<open>
  Claim C2. Both variants return a table. For every calendar day the table of the
  single-trade variant has at most one trade of that day; the table of the
  two-trade variant has at most two, and it has a second one exactly when there
  is a first one whose \<open>StopHit\<close> is true.
\<close>

theorem trades_per_day:
  "\<exists>tbl m tbl2 m2.
     backtest_intraday_open_breakout hist_df pct sl_pct start_time end_time = Inr (tbl, m) \<and>
     backtest_intraday_open_breakout2 hist_df pct sl_pct start_time end_time = Inr (tbl2, m2) \<and>
     (\<forall>day.
        length (filter (\<lambda>t. Date t = day) tbl) \<le> 1 \<and>
        length (filter (\<lambda>t. Date t = day) tbl2) \<le> 2 \<and>
        (1 < length (filter (\<lambda>t. Date t = day) tbl2) \<longleftrightarrow>
         (\<exists>t ts. filter (\<lambda>t. Date t = day) tbl2 = t # ts \<and> StopHit t)))"
proof -
  from both_return[of hist_df pct sl_pct start_time end_time]
  obtain tbl m tbl2 m2 where
    r: "backtest_intraday_open_breakout hist_df pct sl_pct start_time end_time = Inr (tbl, m)"
       "backtest_intraday_open_breakout2 hist_df pct sl_pct start_time end_time = Inr (tbl2, m2)"
    and c: "collect_trades hist_df pct sl_pct start_time end_time = Inr tbl"
       "collect_trades2 hist_df pct sl_pct start_time end_time = Inr tbl2"
    by blast
  have "\<forall>day.
        length (filter (\<lambda>t. Date t = day) tbl) \<le> 1 \<and>
        length (filter (\<lambda>t. Date t = day) tbl2) \<le> 2 \<and>
        (1 < length (filter (\<lambda>t. Date t = day) tbl2) \<longleftrightarrow>
         (\<exists>t ts. filter (\<lambda>t. Date t = day) tbl2 = t # ts \<and> StopHit t))"
  proof
    fix day
    let ?s = "session_of hist_df start_time end_time day"
    let ?sl = "normalize_sl pct sl_pct"
    let ?r1 = "filter (\<lambda>t. Date t = day) tbl"
    let ?r2 = "filter (\<lambda>t. Date t = day) tbl2"
    note d1 = trades_of_day[OF c(1), of day]
    note d2 = trades2_of_day[OF c(2), of day]
    have one: "length ?r1 \<le> 1" by (rule length_day_trades[OF d1])
    have two: "length ?r2 \<le> 2" by (rule length_day_trades2[OF d2])
    have iff: "1 < length ?r2 \<longleftrightarrow> (\<exists>t ts. ?r2 = t # ts \<and> StopHit t)"
      using day_trades2_cases[OF d2] by auto
    from one two iff show "length ?r1 \<le> 1 \<and> length ?r2 \<le> 2 \<and>
        (1 < length ?r2 \<longleftrightarrow> (\<exists>t ts. ?r2 = t # ts \<and> StopHit t))"
      by blast
  qed
  with r show ?thesis by blast
qed

theorem trades_per_day_witness:
  "\<exists>tbl m tbl2 m2 tbl3 m3.
     backtest_intraday_open_breakout example_candles example_pct (Some example_sl_pct) 0 end_of_day
       = Inr (tbl, m) \<and>
     backtest_intraday_open_breakout2 example_candles example_pct (Some example_sl_pct) 0 end_of_day
       = Inr (tbl2, m2) \<and>
     backtest_intraday_open_breakout2 (take 2 example_candles) example_pct (Some example_sl_pct)
         0 end_of_day = Inr (tbl3, m3) \<and>
     length (filter (\<lambda>t. Date t = 0) tbl) = 1 \<and>
     length (filter (\<lambda>t. Date t = 0) tbl2) = 2 \<and>
     StopHit (hd (filter (\<lambda>t. Date t = 0) tbl2)) \<and>
     length (filter (\<lambda>t. Date t = 0) tbl3) = 1 \<and>
     \<not> StopHit (hd (filter (\<lambda>t. Date t = 0) tbl3))"
  using trades_per_day[of example_candles example_pct "Some example_sl_pct" 0 end_of_day]
    trades_per_day[of "take 2 example_candles" example_pct "Some example_sl_pct" 0 end_of_day]
  by (simp add: example_run example_run2 example_short_run2)

text \<open>
  Claim C3. The two-trade variant returns a table, and whenever that table has a
  second trade for a day, that trade is entered at the exit price of the first
  one, which is the first one's stop level, at the first one's exit time, and in
  the opposite direction.
\<close>

theorem reversal_entry:
  "\<exists>tbl2 m2.
     backtest_intraday_open_breakout2 hist_df pct sl_pct start_time end_time = Inr (tbl2, m2) \<and>
     (\<forall>day t1 t2 ts.
        filter (\<lambda>t. Date t = day) tbl2 = t1 # t2 # ts \<longrightarrow>
        Entry t2 = Exit t1 \<and> EntryTime t2 = ExitTime t1 \<and>
        Type t2 = (if Type t1 = LONG then SHORT else LONG) \<and>
        Exit t1 = (if Type t1 = LONG then fmul (Entry t1) (fsub 1 (normalize_sl pct sl_pct))
                   else fmul (Entry t1) (fadd 1 (normalize_sl pct sl_pct))))"
proof -
  from both_return[of hist_df pct sl_pct start_time end_time]
  obtain tbl2 m2 where
    r: "backtest_intraday_open_breakout2 hist_df pct sl_pct start_time end_time = Inr (tbl2, m2)"
    and c: "collect_trades2 hist_df pct sl_pct start_time end_time = Inr tbl2"
    by blast
  have "\<forall>day t1 t2 ts.
        filter (\<lambda>t. Date t = day) tbl2 = t1 # t2 # ts \<longrightarrow>
        Entry t2 = Exit t1 \<and> EntryTime t2 = ExitTime t1 \<and>
        Type t2 = (if Type t1 = LONG then SHORT else LONG) \<and>
        Exit t1 = (if Type t1 = LONG then fmul (Entry t1) (fsub 1 (normalize_sl pct sl_pct))
                   else fmul (Entry t1) (fadd 1 (normalize_sl pct sl_pct)))"
  proof (intro allI impI)
    fix day t1 t2 ts
    assume rows: "filter (\<lambda>t. Date t = day) tbl2 = t1 # t2 # ts"
    let ?s = "session_of hist_df start_time end_time day"
    let ?sl = "normalize_sl pct sl_pct"
    from trades2_of_day[OF c, of day] rows
    have d2: "day_trades2 pct ?sl day ?s = Inr (t1 # t2 # ts)" by simp
    from day_trades2_cases[OF d2]
    have d1: "day_trades pct ?sl day ?s = Inr [t1]" and hit: "StopHit t1"
      and t2: "second_trade ?sl day ?s (Type t1) (Exit t1) (ExitTime t1) = Inr t2"
      by auto
    note f = first_trade_props[OF sorted_session d1]
    from f(7) obtain c0 where c0: "c0 \<in> set ?s" "time c0 = ExitTime t1" by blast
    note g = second_trade_props[OF sorted_session c0 t2]
    from f(2)[OF hit] g(2,3,4)
    show "Entry t2 = Exit t1 \<and> EntryTime t2 = ExitTime t1 \<and>
        Type t2 = (if Type t1 = LONG then SHORT else LONG) \<and>
        Exit t1 = (if Type t1 = LONG then fmul (Entry t1) (fsub 1 ?sl)
                   else fmul (Entry t1) (fadd 1 ?sl))"
      by simp
  qed
  with r show ?thesis by blast
qed

theorem reversal_entry_witness:
  "\<exists>t1 t2 m2.
     backtest_intraday_open_breakout2 example_candles example_pct (Some example_sl_pct) 0 end_of_day
       = Inr ([t1, t2], m2) \<and>
     Date t1 = 0 \<and> Date t2 = 0 \<and> Entry t2 = Exit t1 \<and> EntryTime t2 = ExitTime t1 \<and>
     Type t1 = LONG \<and> Type t2 = SHORT \<and> Exit t1 = fmul (Entry t1) (fsub 1 example_sl_pct)"
proof -
  from reversal_entry[of example_candles example_pct "Some example_sl_pct" 0 end_of_day]
  obtain tbl2 m2 where
    r: "backtest_intraday_open_breakout2 example_candles example_pct (Some example_sl_pct)
          0 end_of_day = Inr (tbl2, m2)"
    and p: "\<And>day t1 t2 ts. filter (\<lambda>t. Date t = day) tbl2 = t1 # t2 # ts \<Longrightarrow>
        Entry t2 = Exit t1 \<and> EntryTime t2 = ExitTime t1 \<and>
        Type t2 = (if Type t1 = LONG then SHORT else LONG) \<and>
        Exit t1 = (if Type t1 = LONG
                   then fmul (Entry t1) (fsub 1 (normalize_sl example_pct (Some example_sl_pct)))
                   else fmul (Entry t1) (fadd 1 (normalize_sl example_pct (Some example_sl_pct))))"
    by blast
  let ?t1 = "\<lparr>Date = 0, Type = LONG, Entry = 101, Exit = 883963368266793 / 8796093022208,
            PnL = - (4442026976215 / 8796093022208), StopHit = True,
            EntryTime = 300000000000, ExitTime = 600000000000\<rparr>"
  let ?t2 = "\<lparr>Date = 0, Type = SHORT, Entry = 883963368266793 / 8796093022208, Exit = 100.5,
            PnL = - (43980465111 / 8796093022208), StopHit = False,
            EntryTime = 600000000000, ExitTime = 600000000000\<rparr>"
  from r have tbl2: "tbl2 = [?t1, ?t2]" by (simp add: example_run2)
  then have "filter (\<lambda>t. Date t = 0) tbl2 = ?t1 # ?t2 # []" by simp
  from p[OF this] r tbl2 show ?thesis by (simp add: normalize_sl_def)
qed

text \<open>
  Claim C4, as amended. Both variants return a table, and every trade in either
  table has \<open>PnL = Exit - Entry\<close> when it is a LONG and \<open>PnL = Entry - Exit\<close> when
  it is a SHORT, the difference being the float subtraction of the script. On the
  worked example (first open 100, \<^verbatim>\<open>pct = 0.01\<close>, \<^verbatim>\<open>sl_pct = 0.005\<close>, a candle with
  high 101.5, a later one with low 100.4) the first trade of both variants is a
  LONG entered at exactly 101 and stopped at the float nearest to 100.495, with
  \<open>StopHit\<close> true; its \<open>PnL\<close> is that stop minus 101 in floats, which is
  \<open>-4442026976215 / 2^43\<close>, about \<open>-0.5049999999999955\<close>, within \<open>5 * 10^-15\<close> of
  \<open>-0.505\<close>.
\<close>

theorem pnl_sign_convention:
  "(\<exists>tbl m tbl2 m2.
      backtest_intraday_open_breakout hist_df pct sl_pct start_time end_time = Inr (tbl, m) \<and>
      backtest_intraday_open_breakout2 hist_df pct sl_pct start_time end_time = Inr (tbl2, m2) \<and>
      (\<forall>tr \<in> set tbl \<union> set tbl2.
         PnL tr = (if Type tr = LONG then fsub (Exit tr) (Entry tr)
                   else fsub (Entry tr) (Exit tr)))) \<and>
   (\<exists>t m ts m2.
      backtest_intraday_open_breakout example_candles example_pct (Some example_sl_pct)
        0 end_of_day = Inr ([t], m) \<and>
      backtest_intraday_open_breakout2 example_candles example_pct (Some example_sl_pct)
        0 end_of_day = Inr (t # ts, m2) \<and>
      Type t = LONG \<and> EntryTime t = 300000000000 \<and> ExitTime t = 600000000000 \<and> StopHit t \<and>
      Entry t = fmul 100 (fadd 1 example_pct) \<and> Entry t = 101 \<and>
      Exit t = fmul 101 (fsub 1 example_sl_pct) \<and> Exit t = round_double 100.495 \<and>
      PnL t = fsub (Exit t) (Entry t) \<and>
      PnL t = - (4442026976215 / 8796093022208) \<and>
      \<bar>PnL t - (- 0.505)\<bar> < 5 / 10 ^ 15)"
proof -
  from both_return[of hist_df pct sl_pct start_time end_time]
  obtain tbl m tbl2 m2 where
    r: "backtest_intraday_open_breakout hist_df pct sl_pct start_time end_time = Inr (tbl, m)"
       "backtest_intraday_open_breakout2 hist_df pct sl_pct start_time end_time = Inr (tbl2, m2)"
    and c: "collect_trades hist_df pct sl_pct start_time end_time = Inr tbl"
       "collect_trades2 hist_df pct sl_pct start_time end_time = Inr tbl2"
    by blast
  have "\<forall>tr \<in> set tbl \<union> set tbl2.
         PnL tr = (if Type tr = LONG then fsub (Exit tr) (Entry tr)
                   else fsub (Entry tr) (Exit tr))"
  proof
    fix tr assume "tr \<in> set tbl \<union> set tbl2"
    then consider "tr \<in> set tbl" | "tr \<in> set tbl2" by blast
    then show "PnL tr = (if Type tr = LONG then fsub (Exit tr) (Entry tr)
                   else fsub (Entry tr) (Exit tr))"
    proof cases
      case 1
      from trade_props(3)[OF disjI1[OF c(1)] 1] show ?thesis .
    next
      case 2
      from trade_props(3)[OF disjI2[OF c(2)] 2] show ?thesis .
    qed
  qed
  with r have general: "\<exists>tbl m tbl2 m2.
      backtest_intraday_open_breakout hist_df pct sl_pct start_time end_time = Inr (tbl, m) \<and>
      backtest_intraday_open_breakout2 hist_df pct sl_pct start_time end_time = Inr (tbl2, m2) \<and>
      (\<forall>tr \<in> set tbl \<union> set tbl2.
         PnL tr = (if Type tr = LONG then fsub (Exit tr) (Entry tr)
                   else fsub (Entry tr) (Exit tr)))"
    by blast
  have example: "\<exists>t m ts m2.
      backtest_intraday_open_breakout example_candles example_pct (Some example_sl_pct)
        0 end_of_day = Inr ([t], m) \<and>
      backtest_intraday_open_breakout2 example_candles example_pct (Some example_sl_pct)
        0 end_of_day = Inr (t # ts, m2) \<and>
      Type t = LONG \<and> EntryTime t = 300000000000 \<and> ExitTime t = 600000000000 \<and> StopHit t \<and>
      Entry t = fmul 100 (fadd 1 example_pct) \<and> Entry t = 101 \<and>
      Exit t = fmul 101 (fsub 1 example_sl_pct) \<and> Exit t = round_double 100.495 \<and>
      PnL t = fsub (Exit t) (Entry t) \<and>
      PnL t = - (4442026976215 / 8796093022208) \<and>
      \<bar>PnL t - (- 0.505)\<bar> < 5 / 10 ^ 15"
    by (simp add: example_run example_run2)
       (simp add: example_pct_def example_sl_pct_def float_eval)
  from general example show ?thesis by (rule conjI)
qed

text \<open>The sign convention on the two trades of the worked example, a LONG and a
  SHORT.\<close>

theorem pnl_sign_convention_witness:
  "\<exists>m2.
     backtest_intraday_open_breakout2 example_candles example_pct (Some example_sl_pct) 0 end_of_day =
       Inr ([\<lparr>Date = 0, Type = LONG, Entry = 101, Exit = 883963368266793 / 8796093022208,
              PnL = - (4442026976215 / 8796093022208), StopHit = True,
              EntryTime = 300000000000, ExitTime = 600000000000\<rparr>,
             \<lparr>Date = 0, Type = SHORT, Entry = 883963368266793 / 8796093022208, Exit = 100.5,
              PnL = - (43980465111 / 8796093022208), StopHit = False,
              EntryTime = 600000000000, ExitTime = 600000000000\<rparr>], m2) \<and>
     - (4442026976215 / 8796093022208) = fsub (883963368266793 / 8796093022208) 101 \<and>
     - (43980465111 / 8796093022208) = fsub (883963368266793 / 8796093022208) 100.5"
  using pnl_sign_convention[of example_candles example_pct "Some example_sl_pct" 0 end_of_day]
  by (simp add: example_run example_run2)

text \<open>
  The claim as first stated gives the example a \<open>PnL\<close> of \<open>-0.505\<close>. The run on the
  example returns another number: it is neither the real number \<open>-0.505\<close> nor the
  float that the literal \<^verbatim>\<open>-0.505\<close> denotes.
\<close>

theorem pnl_literal_counterexample:
  "open (hd example_candles) = 100 \<and> high (example_candles ! 1) = 101.5 \<and>
   low (example_candles ! 2) = round_double 100.4 \<and>
   example_pct = round_double 0.01 \<and> example_sl_pct = round_double 0.005 \<and>
   backtest_intraday_open_breakout example_candles example_pct (Some example_sl_pct) 0 end_of_day =
     Inr ([\<lparr>Date = 0, Type = LONG, Entry = 101, Exit = 883963368266793 / 8796093022208,
            PnL = - (4442026976215 / 8796093022208), StopHit = True,
            EntryTime = 300000000000, ExitTime = 600000000000\<rparr>],
          \<lparr>Total_PnL = - (4442026976215 / 8796093022208), Max_Drawdown = 0, Total_Trades = 1,
            Win_Rate_pct = 0, Avg_PnL = - (4442026976215 / 8796093022208)\<rparr>) \<and>
   - (4442026976215 / 8796093022208) \<noteq> (- 0.505 :: real) \<and>
   - (4442026976215 / 8796093022208) \<noteq> round_double (- 0.505)"
proof -
  have a: "open (hd example_candles) = 100 \<and> high (example_candles ! 1) = 101.5 \<and>
      low (example_candles ! 2) = round_double 100.4"
    by (simp add: example_candles_def)
  have b: "example_pct = round_double 0.01 \<and> example_sl_pct = round_double 0.005"
    by (simp add: example_pct_def example_sl_pct_def)
  have c: "- (4442026976215 / 8796093022208) \<noteq> (- 0.505 :: real) \<and>
      - (4442026976215 / 8796093022208) \<noteq> round_double (- 0.505)"
    by (simp add: float_eval)
  from a b c example_run show ?thesis by blast
qed

text \<open>
  Claim C5. Both variants return, and the \<open>Max_Drawdown\<close> they return is at most 0;
  it is 0 whenever the running sum of the P&Ls, in the order of the returned
  table, never decreases, which includes the empty table; on empty input it
  is 0.
\<close>

theorem max_drawdown_nonpositive:
  "(\<exists>tbl m tbl2 m2.
     backtest_intraday_open_breakout hist_df pct sl_pct start_time end_time = Inr (tbl, m) \<and>
     backtest_intraday_open_breakout2 hist_df pct sl_pct start_time end_time = Inr (tbl2, m2) \<and>
     Max_Drawdown m \<le> 0 \<and> Max_Drawdown m2 \<le> 0 \<and>
     (sorted (cumsum (map PnL tbl)) \<longrightarrow> Max_Drawdown m = 0) \<and>
     (sorted (cumsum (map PnL tbl2)) \<longrightarrow> Max_Drawdown m2 = 0)) \<and>
   (\<exists>m. backtest_intraday_open_breakout [] pct sl_pct start_time end_time = Inr ([], m) \<and>
        Max_Drawdown m = 0) \<and>
   (\<exists>m. backtest_intraday_open_breakout2 [] pct sl_pct start_time end_time = Inr ([], m) \<and>
        Max_Drawdown m = 0)"
proof -
  from both_return[of hist_df pct sl_pct start_time end_time]
  obtain tbl m tbl2 m2 where
    r: "backtest_intraday_open_breakout hist_df pct sl_pct start_time end_time = Inr (tbl, m)"
       "backtest_intraday_open_breakout2 hist_df pct sl_pct start_time end_time = Inr (tbl2, m2)"
    and m: "if tbl = [] then m = zero_metrics else compute_metrics tbl = Inr m"
    and m2: "if tbl2 = [] then m2 = zero_metrics else compute_metrics tbl2 = Inr m2"
    by blast
  have le: "Max_Drawdown m \<le> 0"
    using m max_drawdown_le_0[of tbl m] by (auto simp: zero_metrics_def split: if_splits)
  have le2: "Max_Drawdown m2 \<le> 0"
    using m2 max_drawdown_le_0[of tbl2 m2] by (auto simp: zero_metrics_def split: if_splits)
  have z: "sorted (cumsum (map PnL tbl)) \<longrightarrow> Max_Drawdown m = 0"
    using m max_drawdown_sorted[of tbl m] by (auto simp: zero_metrics_def split: if_splits)
  have z2: "sorted (cumsum (map PnL tbl2)) \<longrightarrow> Max_Drawdown m2 = 0"
    using m2 max_drawdown_sorted[of tbl2 m2] by (auto simp: zero_metrics_def split: if_splits)
  have e: "backtest_intraday_open_breakout [] pct sl_pct start_time end_time =
      Inr ([], zero_metrics)"
    using backtest_table[OF collect_trades_Nil, of pct sl_pct start_time end_time] by simp
  have e2: "backtest_intraday_open_breakout2 [] pct sl_pct start_time end_time =
      Inr ([], zero_metrics)"
    using backtest2_table[OF collect_trades2_Nil, of pct sl_pct start_time end_time] by simp
  from r le le2 z z2 have
    "\<exists>tbl m tbl2 m2.
     backtest_intraday_open_breakout hist_df pct sl_pct start_time end_time = Inr (tbl, m) \<and>
     backtest_intraday_open_breakout2 hist_df pct sl_pct start_time end_time = Inr (tbl2, m2) \<and>
     Max_Drawdown m \<le> 0 \<and> Max_Drawdown m2 \<le> 0 \<and>
     (sorted (cumsum (map PnL tbl)) \<longrightarrow> Max_Drawdown m = 0) \<and>
     (sorted (cumsum (map PnL tbl2)) \<longrightarrow> Max_Drawdown m2 = 0)"
    by blast
  then show ?thesis using e e2 by (simp add: zero_metrics_def)
qed

theorem max_drawdown_nonpositive_witness:
  "\<exists>tbl m tbl2 m2 tbl3 m3.
     backtest_intraday_open_breakout example_candles example_pct (Some example_sl_pct) 0 end_of_day
       = Inr (tbl, m) \<and>
     backtest_intraday_open_breakout2 (take 2 example_candles) example_pct (Some example_sl_pct)
       0 end_of_day = Inr (tbl2, m2) \<and>
     backtest_intraday_open_breakout2 example_candles example_pct (Some example_sl_pct) 0 end_of_day
       = Inr (tbl3, m3) \<and>
     sorted (cumsum (map PnL tbl)) \<and> Max_Drawdown m = 0 \<and>
     sorted (cumsum (map PnL tbl2)) \<and> Max_Drawdown m2 = 0 \<and>
     Max_Drawdown m3 = - (43980465111 / 8796093022208) \<and> Max_Drawdown m3 \<le> 0"
  using max_drawdown_nonpositive[of example_candles example_pct "Some example_sl_pct" 0 end_of_day]
    max_drawdown_nonpositive[of "take 2 example_candles" example_pct "Some example_sl_pct"
       0 end_of_day]
  by (simp add: example_run example_run2 example_short_run2)

text \<open>
  Claim C6. On an input where no candle of any session reaches a trigger level
  of its session, which by \<open>collect_trades_Nil_iff\<close> are exactly the inputs on
  which the loop over the days appends no trade, and in particular on empty
  input, both variants return, and what they return is the empty table with
  the metrics \<open>Total_PnL = 0\<close>, \<open>Max_Drawdown = 0\<close>, \<open>Total_Trades = 0\<close>,
  \<open>Win_Rate_pct = 0\<close>, \<open>Avg_PnL = 0\<close>. No exception is raised: the loop skips a day
  with no candle in the window before it reads the first candle, and the empty
  table is returned before it is sorted (\<open>iloc_empty\<close>, \<open>sort_values_empty\<close> and
  \<open>compute_metrics_empty\<close> are what would be raised otherwise).
\<close>

theorem zero_trades_zero_metrics:
  "((\<forall>day. \<forall>c \<in> set (session_of hist_df start_time end_time day).
        high c < fmul (open (hd (session_of hist_df start_time end_time day))) (fadd 1 pct) \<and>
        fmul (open (hd (session_of hist_df start_time end_time day))) (fsub 1 pct) < low c) \<longrightarrow>
      backtest_intraday_open_breakout hist_df pct sl_pct start_time end_time =
        Inr ([], \<lparr>Total_PnL = 0, Max_Drawdown = 0, Total_Trades = 0, Win_Rate_pct = 0,
                   Avg_PnL = 0\<rparr>) \<and>
      backtest_intraday_open_breakout2 hist_df pct sl_pct start_time end_time =
        Inr ([], \<lparr>Total_PnL = 0, Max_Drawdown = 0, Total_Trades = 0, Win_Rate_pct = 0,
                   Avg_PnL = 0\<rparr>)) \<and>
   (collect_trades hist_df pct sl_pct start_time end_time = Inr [] \<longrightarrow>
      backtest_intraday_open_breakout hist_df pct sl_pct start_time end_time =
        Inr ([], \<lparr>Total_PnL = 0, Max_Drawdown = 0, Total_Trades = 0, Win_Rate_pct = 0,
                   Avg_PnL = 0\<rparr>)) \<and>
   (collect_trades2 hist_df pct sl_pct start_time end_time = Inr [] \<longrightarrow>
      backtest_intraday_open_breakout2 hist_df pct sl_pct start_time end_time =
        Inr ([], \<lparr>Total_PnL = 0, Max_Drawdown = 0, Total_Trades = 0, Win_Rate_pct = 0,
                   Avg_PnL = 0\<rparr>)) \<and>
   backtest_intraday_open_breakout [] pct sl_pct start_time end_time =
     Inr ([], \<lparr>Total_PnL = 0, Max_Drawdown = 0, Total_Trades = 0, Win_Rate_pct = 0,
                Avg_PnL = 0\<rparr>) \<and>
   backtest_intraday_open_breakout2 [] pct sl_pct start_time end_time =
     Inr ([], \<lparr>Total_PnL = 0, Max_Drawdown = 0, Total_Trades = 0, Win_Rate_pct = 0,
                Avg_PnL = 0\<rparr>)"
proof -
  have a: "collect_trades hist_df pct sl_pct start_time end_time = Inr [] \<Longrightarrow>
      backtest_intraday_open_breakout hist_df pct sl_pct start_time end_time =
        Inr ([], zero_metrics)" for hist_df
    using backtest_table[of hist_df pct sl_pct start_time end_time "[]"] by simp
  have b: "collect_trades2 hist_df pct sl_pct start_time end_time = Inr [] \<Longrightarrow>
      backtest_intraday_open_breakout2 hist_df pct sl_pct start_time end_time =
        Inr ([], zero_metrics)" for hist_df
    using backtest2_table[of hist_df pct sl_pct start_time end_time "[]"] by simp
  show ?thesis
    using a[of hist_df] b[of hist_df] a[OF collect_trades_Nil] b[OF collect_trades2_Nil]
      collect_trades_Nil_iff[of hist_df pct sl_pct start_time end_time]
      collect_trades2_Nil_iff[of hist_df pct sl_pct start_time end_time]
    by (simp add: zero_metrics_def)
qed

theorem zero_trades_zero_metrics_witness:
  "collect_trades (take 1 example_candles) example_pct None 0 end_of_day = Inr [] \<and>
   backtest_intraday_open_breakout (take 1 example_candles) example_pct None 0 end_of_day =
     Inr ([], \<lparr>Total_PnL = 0, Max_Drawdown = 0, Total_Trades = 0, Win_Rate_pct = 0,
                Avg_PnL = 0\<rparr>) \<and>
   collect_trades2 (take 1 example_candles) example_pct None 0 end_of_day = Inr [] \<and>
   backtest_intraday_open_breakout2 (take 1 example_candles) example_pct None 0 end_of_day =
     Inr ([], \<lparr>Total_PnL = 0, Max_Drawdown = 0, Total_Trades = 0, Win_Rate_pct = 0,
                Avg_PnL = 0\<rparr>)"
proof -
  have n: "\<forall>day. \<forall>c \<in> set (session_of (take 1 example_candles) 0 end_of_day day).
        high c < fmul (open (hd (session_of (take 1 example_candles) 0 end_of_day day)))
                   (fadd 1 example_pct) \<and>
        fmul (open (hd (session_of (take 1 example_candles) 0 end_of_day day)))
          (fsub 1 example_pct) < low c"
    using collect_trades_Nil_iff[of "take 1 example_candles" example_pct None 0 end_of_day]
      example_first_candle_no_trade(1)
    by simp
  from zero_trades_zero_metrics[of "take 1 example_candles" 0 end_of_day example_pct None] n
    example_first_candle_no_trade
  show ?thesis by simp
qed

text \<open>
  Claim C7. When the first candle of a session that reaches a trigger level
  reaches both (its high is at least the long trigger and its low at most the
  short trigger), both variants return a table in which the first trade of that
  day is a LONG entered at the long trigger on that candle.
\<close>

theorem long_priority:
  assumes "session_of hist_df start_time end_time day = pre @ c # post"
    and "\<forall>x \<in> set pre.
           high x < fmul (open (hd (session_of hist_df start_time end_time day))) (fadd 1 pct) \<and>
           fmul (open (hd (session_of hist_df start_time end_time day))) (fsub 1 pct) < low x"
    and "high c \<ge> fmul (open (hd (session_of hist_df start_time end_time day))) (fadd 1 pct)"
    and "low c \<le> fmul (open (hd (session_of hist_df start_time end_time day))) (fsub 1 pct)"
  shows "\<exists>tbl m tbl2 m2.
     backtest_intraday_open_breakout hist_df pct sl_pct start_time end_time = Inr (tbl, m) \<and>
     backtest_intraday_open_breakout2 hist_df pct sl_pct start_time end_time = Inr (tbl2, m2) \<and>
     (\<exists>t. filter (\<lambda>t. Date t = day) tbl = [t] \<and>
          Type t = LONG \<and> EntryTime t = time c \<and>
          Entry t = fmul (open (hd (session_of hist_df start_time end_time day))) (fadd 1 pct)) \<and>
     (\<exists>t ts. filter (\<lambda>t. Date t = day) tbl2 = t # ts \<and>
          Type t = LONG \<and> EntryTime t = time c \<and>
          Entry t = fmul (open (hd (session_of hist_df start_time end_time day))) (fadd 1 pct))"
proof -
  let ?s = "session_of hist_df start_time end_time day"
  let ?sl = "normalize_sl pct sl_pct"
  from both_return[of hist_df pct sl_pct start_time end_time]
  obtain tbl m tbl2 m2 where
    r: "backtest_intraday_open_breakout hist_df pct sl_pct start_time end_time = Inr (tbl, m)"
       "backtest_intraday_open_breakout2 hist_df pct sl_pct start_time end_time = Inr (tbl2, m2)"
    and cl: "collect_trades hist_df pct sl_pct start_time end_time = Inr tbl"
       "collect_trades2 hist_df pct sl_pct start_time end_time = Inr tbl2"
    by blast
  from day_trades_long[OF assms(1,2,3), of ?sl day]
  obtain t where t: "day_trades pct ?sl day ?s = Inr [t]" "Type t = LONG"
    "Entry t = fmul (open (hd ?s)) (fadd 1 pct)" "EntryTime t = time c"
    by blast
  from trades_of_day[OF cl(1), of day] t(1)
  have one: "filter (\<lambda>t. Date t = day) tbl = [t]" by simp
  from day_trades2_cases[OF trades2_of_day[OF cl(2), of day]] t(1)
  have "\<exists>ts. filter (\<lambda>t. Date t = day) tbl2 = t # ts" by auto
  then obtain ts where two: "filter (\<lambda>t. Date t = day) tbl2 = t # ts" ..
  from r one two t(2,3,4) show ?thesis by blast
qed

theorem long_priority_witness:
  "\<exists>m m2.
     backtest_intraday_open_breakout both_sides_example example_pct None 0 end_of_day =
       Inr ([\<lparr>Date = 0, Type = LONG, Entry = 101, Exit = 99.5, PnL = - 1.5, StopHit = False,
              EntryTime = 300000000000, ExitTime = 300000000000\<rparr>], m) \<and>
     backtest_intraday_open_breakout2 both_sides_example example_pct None 0 end_of_day =
       Inr ([\<lparr>Date = 0, Type = LONG, Entry = 101, Exit = 99.5, PnL = - 1.5, StopHit = False,
              EntryTime = 300000000000, ExitTime = 300000000000\<rparr>], m2) \<and>
     (101 :: real) = fmul (open (hd (session_of both_sides_example 0 end_of_day 0)))
                       (fadd 1 example_pct) \<and>
     high (both_sides_example ! 1) \<ge> 101 \<and>
     low (both_sides_example ! 1) \<le> fmul (open (hd (session_of both_sides_example 0 end_of_day 0)))
                                       (fsub 1 example_pct)"
proof -
  let ?c0 = "\<lparr>time = 0, open = 100, high = 100.5, low = 99.5, close = 100\<rparr>"
  let ?c1 = "\<lparr>time = 300000000000, open = 100, high = 101.5, low = 98.5, close = 99.5\<rparr>"
  have b: "both_sides_example = [?c0, ?c1]" by (simp add: both_sides_example_def)
  have lt: "fmul (open (hd (session_of both_sides_example 0 end_of_day 0))) (fadd 1 example_pct)
      = 101"
    by (simp add: both_sides_session) (simp add: b example_triggers)
  have st: "fmul (open (hd (session_of both_sides_example 0 end_of_day 0))) (fsub 1 example_pct)
      = 99"
    by (simp add: both_sides_session) (simp add: b example_triggers)
  have s: "session_of both_sides_example 0 end_of_day 0 = [?c0] @ ?c1 # []"
    by (simp add: both_sides_session) (simp add: b)
  have p: "\<forall>x \<in> set [?c0].
           high x < fmul (open (hd (session_of both_sides_example 0 end_of_day 0)))
                      (fadd 1 example_pct) \<and>
           fmul (open (hd (session_of both_sides_example 0 end_of_day 0))) (fsub 1 example_pct)
             < low x"
    by (simp add: lt st)
  have h: "high ?c1 \<ge> fmul (open (hd (session_of both_sides_example 0 end_of_day 0)))
                          (fadd 1 example_pct)"
    by (simp add: lt)
  have l: "low ?c1 \<le> fmul (open (hd (session_of both_sides_example 0 end_of_day 0)))
                         (fsub 1 example_pct)"
    by (simp add: st)
  from long_priority[OF s p h l, of None] lt st show ?thesis
    by (simp add: both_sides_run both_sides_run2) (simp add: b)
qed

text \<open>
  Claim C8 says that \<^verbatim>\<open>filter_by_date\<close> returns every row of the dates from
  \<open>start_date\<close> to \<open>end_date\<close>, all candles of both boundary dates included. The
  code does not: on the three candles of the worked example, all of date 0 and
  at 00:00, 00:05 and 00:10, the range from date 0 to date 0 has all three
  rows, and \<^verbatim>\<open>filter_by_date\<close> returns only the one at midnight.
\<close>

theorem filter_by_date_drops_end_date:
  "map time example_candles = [0, 300000000000, 600000000000] \<and>
   map (\<lambda>c. date_of (time c)) example_candles = [0, 0, 0] \<and>
   rows_in_date_range example_candles 0 0 = example_candles \<and>
   filter_by_date example_candles 0 0 = take 1 example_candles \<and>
   filter_by_date example_candles 0 0 \<noteq> rows_in_date_range example_candles 0 0"
  by (simp add: rows_in_date_range_def filter_by_date_def midnight_def date_of_def ns_per_day_def
        example_candles_def)

text \<open>
  Claim C9. Both variants return a table in ascending order of \<open>EntryTime\<close>, and
  the table lists the trades in the order in which the loop over the days
  appended them, so trades of equal entry time keep that order.
\<close>

theorem ledger_sorted_by_entry_time:
  "\<exists>tbl m tbl2 m2.
     backtest_intraday_open_breakout hist_df pct sl_pct start_time end_time = Inr (tbl, m) \<and>
     backtest_intraday_open_breakout2 hist_df pct sl_pct start_time end_time = Inr (tbl2, m2) \<and>
     sorted (map EntryTime tbl) \<and> sorted (map EntryTime tbl2) \<and>
     collect_trades hist_df pct sl_pct start_time end_time = Inr tbl \<and>
     collect_trades2 hist_df pct sl_pct start_time end_time = Inr tbl2"
proof -
  from both_return[of hist_df pct sl_pct start_time end_time]
  obtain tbl m tbl2 m2 where
    r: "backtest_intraday_open_breakout hist_df pct sl_pct start_time end_time = Inr (tbl, m)"
       "backtest_intraday_open_breakout2 hist_df pct sl_pct start_time end_time = Inr (tbl2, m2)"
    and c: "collect_trades hist_df pct sl_pct start_time end_time = Inr tbl"
       "collect_trades2 hist_df pct sl_pct start_time end_time = Inr tbl2"
    by blast
  have d1: "\<forall>t \<in> set tbl. Date t = date_of (EntryTime t)"
    using trade_props(7)[OF disjI1[OF c(1)]] by simp
  have d2: "\<forall>t \<in> set tbl2. Date t = date_of (EntryTime t)"
    using trade_props(7)[OF disjI2[OF c(2)]] by simp
  have s1: "sorted (map EntryTime tbl)"
    by (rule sorted_by_entry_time[OF collect_trades_sorted_pair[OF c(1)] d1])
  have s2: "sorted (map EntryTime tbl2)"
    by (rule sorted_by_entry_time[OF collect_trades2_sorted[OF c(2)] d2])
  from r c s1 s2 show ?thesis by blast
qed

theorem ledger_sorted_by_entry_time_witness:
  "\<exists>tbl2 m2.
     backtest_intraday_open_breakout2 example_candles example_pct (Some example_sl_pct) 0 end_of_day
       = Inr (tbl2, m2) \<and>
     map EntryTime tbl2 = [300000000000, 600000000000] \<and> sorted (map EntryTime tbl2)"
  using ledger_sorted_by_entry_time[of example_candles example_pct "Some example_sl_pct"
      0 end_of_day]
  by (simp add: example_run example_run2)

text \<open>
  Claim C10. Both variants return a table, and every trade in either table exits
  no earlier than it enters; its entry and exit timestamps are timestamps of
  candles of its session, so they are on the trade's date and inside the
  time-of-day window; and a trade entered at the timestamp of the session's
  last candle exits at that same timestamp.
\<close>

theorem trade_times_in_session:
  "\<exists>tbl m tbl2 m2.
     backtest_intraday_open_breakout hist_df pct sl_pct start_time end_time = Inr (tbl, m) \<and>
     backtest_intraday_open_breakout2 hist_df pct sl_pct start_time end_time = Inr (tbl2, m2) \<and>
     (\<forall>tr \<in> set tbl \<union> set tbl2.
        EntryTime tr \<le> ExitTime tr \<and>
        EntryTime tr \<in> time ` set (session_of hist_df start_time end_time (Date tr)) \<and>
        ExitTime tr \<in> time ` set (session_of hist_df start_time end_time (Date tr)) \<and>
        date_of (EntryTime tr) = Date tr \<and> date_of (ExitTime tr) = Date tr \<and>
        in_window start_time end_time (time_micros (EntryTime tr)) \<and>
        in_window start_time end_time (time_micros (ExitTime tr)) \<and>
        (EntryTime tr = time (last (session_of hist_df start_time end_time (Date tr))) \<longrightarrow>
           ExitTime tr = EntryTime tr))"
proof -
  from both_return[of hist_df pct sl_pct start_time end_time]
  obtain tbl m tbl2 m2 where
    r: "backtest_intraday_open_breakout hist_df pct sl_pct start_time end_time = Inr (tbl, m)"
       "backtest_intraday_open_breakout2 hist_df pct sl_pct start_time end_time = Inr (tbl2, m2)"
    and c: "collect_trades hist_df pct sl_pct start_time end_time = Inr tbl"
       "collect_trades2 hist_df pct sl_pct start_time end_time = Inr tbl2"
    by blast
  have "\<forall>tr \<in> set tbl \<union> set tbl2.
        EntryTime tr \<le> ExitTime tr \<and>
        EntryTime tr \<in> time ` set (session_of hist_df start_time end_time (Date tr)) \<and>
        ExitTime tr \<in> time ` set (session_of hist_df start_time end_time (Date tr)) \<and>
        date_of (EntryTime tr) = Date tr \<and> date_of (ExitTime tr) = Date tr \<and>
        in_window start_time end_time (time_micros (EntryTime tr)) \<and>
        in_window start_time end_time (time_micros (ExitTime tr)) \<and>
        (EntryTime tr = time (last (session_of hist_df start_time end_time (Date tr))) \<longrightarrow>
           ExitTime tr = EntryTime tr)"
  proof
    fix tr assume "tr \<in> set tbl \<union> set tbl2"
    then consider "tr \<in> set tbl" | "tr \<in> set tbl2" by blast
    then show "EntryTime tr \<le> ExitTime tr \<and>
        EntryTime tr \<in> time ` set (session_of hist_df start_time end_time (Date tr)) \<and>
        ExitTime tr \<in> time ` set (session_of hist_df start_time end_time (Date tr)) \<and>
        date_of (EntryTime tr) = Date tr \<and> date_of (ExitTime tr) = Date tr \<and>
        in_window start_time end_time (time_micros (EntryTime tr)) \<and>
        in_window start_time end_time (time_micros (ExitTime tr)) \<and>
        (EntryTime tr = time (last (session_of hist_df start_time end_time (Date tr))) \<longrightarrow>
           ExitTime tr = EntryTime tr)"
    proof cases
      case 1
      note p = trade_props[OF disjI1[OF c(1)] 1]
      from p(4,5,6,7,8,9,10) p(11) show ?thesis by blast
    next
      case 2
      note p = trade_props[OF disjI2[OF c(2)] 2]
      from p(4,5,6,7,8,9,10) p(11) show ?thesis by blast
    qed
  qed
  with r show ?thesis by blast
qed

theorem trade_times_in_session_witness:
  "\<exists>m m2.
     backtest_intraday_open_breakout example_candles example_pct (Some example_sl_pct) 0 end_of_day =
       Inr ([\<lparr>Date = 0, Type = LONG, Entry = 101, Exit = 883963368266793 / 8796093022208,
              PnL = - (4442026976215 / 8796093022208), StopHit = True,
              EntryTime = 300000000000, ExitTime = 600000000000\<rparr>], m) \<and>
     backtest_intraday_open_breakout2 example_candles example_pct (Some example_sl_pct) 0 end_of_day =
       Inr ([\<lparr>Date = 0, Type = LONG, Entry = 101, Exit = 883963368266793 / 8796093022208,
              PnL = - (4442026976215 / 8796093022208), StopHit = True,
              EntryTime = 300000000000, ExitTime = 600000000000\<rparr>,
             \<lparr>Date = 0, Type = SHORT, Entry = 883963368266793 / 8796093022208, Exit = 100.5,
              PnL = - (43980465111 / 8796093022208), StopHit = False,
              EntryTime = 600000000000, ExitTime = 600000000000\<rparr>], m2) \<and>
     (600000000000 :: int) = time (last (session_of example_candles 0 end_of_day 0)) \<and>
     date_of 300000000000 = 0 \<and> date_of 600000000000 = 0 \<and>
     in_window 0 end_of_day (time_micros 300000000000) \<and>
     in_window 0 end_of_day (time_micros 600000000000)"
proof -
  have l: "(600000000000 :: int) = time (last (session_of example_candles 0 end_of_day 0))"
    by (simp add: example_session) (simp add: example_candles_def)
  from trade_times_in_session[of example_candles example_pct "Some example_sl_pct" 0 end_of_day] l
  show ?thesis by (simp add: example_run example_run2)
qed

end
